theory Spec2Isabelle
  imports Complex_Main
begin

section \<open>Basic types (types.ts)\<close>

text \<open>
  \<^verbatim>\<open>enum Player { BLACK, WHITE }\<close>, \<^verbatim>\<open>interface Position { x: number; y: number }\<close> and
  \<^verbatim>\<open>interface Move { position; player; timestamp }\<close>.  Coordinates are the integers the
  callers produce (\<^verbatim>\<open>Math.round\<close> in the renderer, loop counters in the engine); a
  position is the pair \<open>(x, y)\<close>.
\<close>

datatype player = BLACK | WHITE

type_synonym position = "int \<times> int"

record move =
  mv_position :: position
  mv_player :: player
  mv_timestamp :: int

section \<open>Board (Board.ts)\<close>

text \<open>
  The class has three fields: \<^verbatim>\<open>size\<close>, \<^verbatim>\<open>grid\<close> (an array of rows, read as
  \<^verbatim>\<open>grid[y][x]\<close>) and \<^verbatim>\<open>moves\<close> (the move stack).  \<^verbatim>\<open>Date.now()\<close> is an input of
  \<open>placeStone\<close>.
\<close>

record board =
  bsize :: nat
  grid :: "player option list list"
  moves :: "move list"

definition initializeGrid :: "nat \<Rightarrow> player option list list" where
  "initializeGrid n = replicate n (replicate n None)"

definition newBoard :: "nat \<Rightarrow> board" where
  "newBoard n = \<lparr>bsize = n, grid = initializeGrid n, moves = []\<rparr>"

definition getSize :: "board \<Rightarrow> nat" where
  "getSize b = bsize b"

fun isValidPosition :: "board \<Rightarrow> position \<Rightarrow> bool" where
  "isValidPosition b (x, y) =
     (x \<ge> 0 \<and> x < int (bsize b) \<and> y \<ge> 0 \<and> y < int (bsize b))"

text \<open>\<^verbatim>\<open>grid[y][x]\<close> and \<^verbatim>\<open>grid[y][x] = v\<close>, used only behind a bounds check.\<close>

fun cellAt :: "player option list list \<Rightarrow> position \<Rightarrow> player option" where
  "cellAt g (x, y) = g ! nat y ! nat x"

fun setCell :: "player option list list \<Rightarrow> position \<Rightarrow> player option \<Rightarrow> player option list list" where
  "setCell g (x, y) v = g[nat y := (g ! nat y)[nat x := v]]"

definition isEmpty :: "board \<Rightarrow> position \<Rightarrow> bool" where
  "isEmpty b p = (if \<not> isValidPosition b p then False else cellAt (grid b) p = None)"

definition placeStone :: "board \<Rightarrow> position \<Rightarrow> player \<Rightarrow> int \<Rightarrow> board \<times> bool" where
  "placeStone b p pl now =
     (if \<not> isEmpty b p then (b, False)
      else (b\<lparr>grid := setCell (grid b) p (Some pl),
              moves := moves b @ [\<lparr>mv_position = p, mv_player = pl, mv_timestamp = now\<rparr>]\<rparr>,
            True))"

definition getStone :: "board \<Rightarrow> position \<Rightarrow> player option" where
  "getStone b p = (if \<not> isValidPosition b p then None else cellAt (grid b) p)"

definition getMoves :: "board \<Rightarrow> move list" where
  "getMoves b = moves b"

definition undoMove :: "board \<Rightarrow> board \<times> move option" where
  "undoMove b =
     (if length (moves b) = 0 then (b, None)
      else let lastMove = last (moves b)
           in (b\<lparr>moves := butlast (moves b),
                  grid := setCell (grid b) (mv_position lastMove) None\<rparr>,
               Some lastMove))"

definition reset :: "board \<Rightarrow> board" where
  "reset b = b\<lparr>grid := initializeGrid (bsize b), moves := []\<rparr>"

definition removeStone :: "board \<Rightarrow> position \<Rightarrow> board \<times> bool" where
  "removeStone b p =
     (if \<not> isValidPosition b p then (b, False)
      else if cellAt (grid b) p = None then (b, False)
      else (b\<lparr>grid := setCell (grid b) p None\<rparr>, True))"

text \<open>
  The shape every board has: the constructor and \<open>reset\<close> build \<open>size\<close> rows of
  \<open>size\<close> cells, and no method changes the shape.
\<close>

definition wf_board :: "board \<Rightarrow> bool" where
  "wf_board b = (length (grid b) = bsize b \<and> list_all (\<lambda>row. length row = bsize b) (grid b))"

text \<open>A run of \<open>placeStone\<close> calls that all return true; \<open>None\<close> when one of them fails.\<close>

fun placeStones :: "board \<Rightarrow> (position \<times> player \<times> int) list \<Rightarrow> board option" where
  "placeStones b [] = Some b"
| "placeStones b ((p, pl, now) # rest) =
     (case placeStone b p pl now of
        (b', True) \<Rightarrow> placeStones b' rest
      | (b', False) \<Rightarrow> None)"

section \<open>Random draws\<close>

text \<open>
  \<^verbatim>\<open>Math.random()\<close> returns a number \<open>r\<close> with \<open>0 \<le> r < 1\<close>.  A draw is kept as an
  exact fraction: \<open>Draw k m\<close> is the number \<open>k / (k + m + 1)\<close>, so every draw lies in
  that range and every fraction of that range is a draw.  \<open>randomIndex r n\<close> is
  \<^verbatim>\<open>Math.floor(r * n)\<close>.
\<close>

datatype draw = Draw nat nat

fun drawValue :: "draw \<Rightarrow> real" where
  "drawValue (Draw k m) = real k / real (k + m + 1)"

fun randomIndex :: "draw \<Rightarrow> nat \<Rightarrow> nat" where
  "randomIndex (Draw k m) n = nat ((int k * int n) div (int k + int m + 1))"

section \<open>Items (types.ts, ItemSystem.ts)\<close>

datatype itemType =
  CHAOS_STRIKE | PRECISE_STRIKE | ACCELERATED_MOVE | STRATEGY_GUIDE | TOUGHEN_HEART
  | SELF_MISTAKE | OPPONENT_ACCELERATION | SLIP_PENALTY

datatype itemEffectType = INSTANT | DELAYED | CONTINUOUS

text \<open>
  \<^verbatim>\<open>ItemInfo\<close> without its display texts (name, description, icon):
  the type, the effect's timing class and duration, and the \<^verbatim>\<open>isStrengthening\<close> flag.
\<close>

record itemInfo =
  info_type :: itemType
  effect_type :: itemEffectType
  effect_duration :: "nat option"
  isStrengthening :: bool

text \<open>The table \<^verbatim>\<open>ITEM_INFO_MAP\<close>, entry by entry as ItemSystem.ts lines 5-99 give it.\<close>

fun ITEM_INFO_MAP :: "itemType \<Rightarrow> itemInfo" where
  "ITEM_INFO_MAP CHAOS_STRIKE =
     \<lparr>info_type = CHAOS_STRIKE, effect_type = INSTANT, effect_duration = None, isStrengthening = True\<rparr>"
| "ITEM_INFO_MAP PRECISE_STRIKE =
     \<lparr>info_type = PRECISE_STRIKE, effect_type = DELAYED, effect_duration = None, isStrengthening = True\<rparr>"
| "ITEM_INFO_MAP ACCELERATED_MOVE =
     \<lparr>info_type = ACCELERATED_MOVE, effect_type = INSTANT, effect_duration = None, isStrengthening = True\<rparr>"
| "ITEM_INFO_MAP STRATEGY_GUIDE =
     \<lparr>info_type = STRATEGY_GUIDE, effect_type = DELAYED, effect_duration = None, isStrengthening = True\<rparr>"
| "ITEM_INFO_MAP TOUGHEN_HEART =
     \<lparr>info_type = TOUGHEN_HEART, effect_type = CONTINUOUS, effect_duration = Some 1, isStrengthening = True\<rparr>"
| "ITEM_INFO_MAP SELF_MISTAKE =
     \<lparr>info_type = SELF_MISTAKE, effect_type = INSTANT, effect_duration = None, isStrengthening = False\<rparr>"
| "ITEM_INFO_MAP OPPONENT_ACCELERATION =
     \<lparr>info_type = OPPONENT_ACCELERATION, effect_type = INSTANT, effect_duration = None, isStrengthening = False\<rparr>"
| "ITEM_INFO_MAP SLIP_PENALTY =
     \<lparr>info_type = SLIP_PENALTY, effect_type = CONTINUOUS, effect_duration = Some 1, isStrengthening = True\<rparr>"

text \<open>\<^verbatim>\<open>Object.values(ItemType)\<close>: the members in declaration order.\<close>

definition ItemType_values :: "itemType list" where
  "ItemType_values =
     [CHAOS_STRIKE, PRECISE_STRIKE, ACCELERATED_MOVE, STRATEGY_GUIDE, TOUGHEN_HEART,
      SELF_MISTAKE, OPPONENT_ACCELERATION, SLIP_PENALTY]"

record blindBox =
  bb_position :: position
  bb_itemType :: itemType
  isOpened :: bool
  bb_timestamp :: int

record itemSystem =
  availableItems :: "itemType list"
  strengtheningItems :: "itemType list"
  weakeningItems :: "itemType list"

text \<open>The constructor of \<^verbatim>\<open>ItemSystem\<close> (lines 107-112).\<close>

definition newItemSystem :: itemSystem where
  "newItemSystem =
     \<lparr>availableItems = ItemType_values,
      strengtheningItems = filter (\<lambda>t. isStrengthening (ITEM_INFO_MAP t)) ItemType_values,
      weakeningItems = filter (\<lambda>t. \<not> isStrengthening (ITEM_INFO_MAP t)) ItemType_values\<rparr>"

definition getItemInfo :: "itemSystem \<Rightarrow> itemType \<Rightarrow> itemInfo" where
  "getItemInfo sys t = ITEM_INFO_MAP t"

text \<open>
  \<open>generateRandomItemType\<close> reads two draws: \<open>rand\<close> picks the pool, the second one
  the index in the pool.
\<close>

definition generateRandomItemType :: "itemSystem \<Rightarrow> real \<Rightarrow> draw \<Rightarrow> draw \<Rightarrow> itemType" where
  "generateRandomItemType sys strengtheningBias rand r =
     (let itemsPool = (if drawValue rand < strengtheningBias
                       then strengtheningItems sys else weakeningItems sys);
          idx = randomIndex r (length itemsPool)
      in itemsPool ! idx)"

definition generateBlindBox ::
  "itemSystem \<Rightarrow> position list \<Rightarrow> real \<Rightarrow> draw \<Rightarrow> draw \<Rightarrow> draw \<Rightarrow> int \<Rightarrow> blindBox option" where
  "generateBlindBox sys availablePositions strengtheningBias rpos rand r now =
     (if length availablePositions = 0 then None
      else let idx = randomIndex rpos (length availablePositions);
               pos = availablePositions ! idx;
               t = generateRandomItemType sys strengtheningBias rand r
           in Some \<lparr>bb_position = pos, bb_itemType = t, isOpened = False, bb_timestamp = now\<rparr>)"

text \<open>The row-major scan \<^verbatim>\<open>for y ... for x ...\<close> that several methods repeat.\<close>

definition scanCells :: "nat \<Rightarrow> position list" where
  "scanCells n = concat (map (\<lambda>y. map (\<lambda>x. (int x, int y)) [0..<n]) [0..<n])"

definition getAvailablePositions :: "nat \<Rightarrow> (position \<Rightarrow> bool) \<Rightarrow> position list" where
  "getAvailablePositions boardSize isPositionEmpty = filter isPositionEmpty (scanCells boardSize)"

definition findBlindBoxAtPosition :: "position \<Rightarrow> blindBox list \<Rightarrow> blindBox option" where
  "findBlindBoxAtPosition p boxes =
     find (\<lambda>box. \<not> isOpened box \<and> fst (bb_position box) = fst p \<and> snd (bb_position box) = snd p) boxes"

section \<open>The engine's state (types.ts and the fields of GomokuGame)\<close>

datatype gameState = READY | PLAYING | PAUSED | OVER

datatype gameSubState =
  NORMAL | SELECTING_STRIKE_TARGET | SHOWING_ITEM_NAME | SHOWING_STRATEGY_GUIDE
  | HAND_SLIP_PENALTY

datatype gameMode = PVP | PVE

datatype aiDifficulty = Easy | Medium | Hard

datatype moveEventType = NORMAL_MOVE | EXTRA_MOVE | ITEM_TRIGGER

record gameResult =
  winner :: "player option"
  winningLine :: "position list"

record playerItem =
  pi_itemType :: itemType
  acquiredAt :: int
  activatedAt :: "int option"
  expiresAt :: "int option"
  isActive :: bool

record gameConfig =
  mode :: gameMode
  playerColor :: player
  difficulty :: aiDifficulty
  enableItems :: bool

text \<open>
  A \<^verbatim>\<open>MoveEvent\<close> without its generated id string and its description text.
\<close>

record moveEvent =
  ev_timestamp :: int
  ev_player :: player
  ev_type :: moveEventType
  ev_itemType :: "itemType option"
  ev_extraMovesAdded :: "int option"

record playerMoveCount =
  pmc_player :: player
  originalMoveCount :: int
  extraMovesEarned :: int
  extraMovesUsed :: int
  currentExtraMoves :: int
  moveEvents :: "moveEvent list"

text \<open>
  A \<^verbatim>\<open>Map<Player, T>\<close> that holds both keys from the constructor on: the entry of
  BLACK and the entry of WHITE.
\<close>

datatype 'a perPlayer = PerPlayer 'a 'a

fun pget :: "'a perPlayer \<Rightarrow> player \<Rightarrow> 'a" where
  "pget (PerPlayer b w) BLACK = b"
| "pget (PerPlayer b w) WHITE = w"

fun pset :: "'a perPlayer \<Rightarrow> player \<Rightarrow> 'a \<Rightarrow> 'a perPlayer" where
  "pset (PerPlayer b w) BLACK v = PerPlayer v w"
| "pset (PerPlayer b w) WHITE v = PerPlayer b v"

record gameMoveCountState =
  players :: "playerMoveCount perPlayer"
  mcs_currentPlayer :: player

text \<open>The texts \<^verbatim>\<open>showNotification\<close> is called with, by the attack that was blocked.\<close>

datatype notice =
  ImmuneToAttack player | ImmuneToPreciseStrike player | ImmuneToOwnMistake player

text \<open>
  The fields of \<^verbatim>\<open>GomokuGame\<close>.  A timer field is true while it holds a timer handle.
  \<open>notifyCount\<close> counts the calls of \<^verbatim>\<open>notifyGameStateChange\<close>; the subscribers only
  read the game.
\<close>

record game =
  board :: board
  currentPlayer :: player
  gameState :: gameState
  gameSubState :: gameSubState
  gameResult :: "gameResult option"
  moveHistory :: "move list"
  config :: gameConfig
  aiTimer :: bool
  isAiCalculating :: bool
  itemSystem :: itemSystem
  blindBoxes :: "blindBox list"
  playerItems :: "playerItem list perPlayer"
  activeEffects :: "playerItem list perPlayer"
  lastItemUsed :: "itemType option"
  itemNameDisplayTimer :: bool
  strategyGuidePositions :: "position list"
  hasExtraMove :: bool
  nextPlayerHasExtraMove :: bool
  nextPlayerHasSlipPenalty :: bool
  allowedPositions :: "position list"
  notification :: "notice option"
  notificationTimer :: bool
  preciseStrikePlayer :: "player option"
  preciseStrikeHasExtraMove :: bool
  gameMoveCountState :: gameMoveCountState
  notifyCount :: nat

text \<open>
  What one call reads from outside: the clock (\<^verbatim>\<open>Date.now()\<close>) and the random draws,
  one per place that calls \<^verbatim>\<open>Math.random()\<close> for a decision: the stone an attack
  removes, the cell and the item of the new blind box, and the three picks of the
  hand-slip penalty.
\<close>

record env =
  e_now :: int
  r_strike :: draw
  r_box_pos :: draw
  r_box_pool :: draw
  r_box_item :: draw
  r_slip :: "nat \<Rightarrow> draw"

definition opponentOf :: "player \<Rightarrow> player" where
  "opponentOf p = (if p = BLACK then WHITE else BLACK)"

definition createPlayerMoveCount :: "player \<Rightarrow> playerMoveCount" where
  "createPlayerMoveCount p =
     \<lparr>pmc_player = p, originalMoveCount = 0, extraMovesEarned = 0, extraMovesUsed = 0,
      currentExtraMoves = 0, moveEvents = []\<rparr>"

definition createGameMoveCountState :: "player \<Rightarrow> gameMoveCountState" where
  "createGameMoveCountState cur =
     \<lparr>players = PerPlayer (createPlayerMoveCount BLACK) (createPlayerMoveCount WHITE),
      mcs_currentPlayer = cur\<rparr>"

text \<open>The field initialisers and the constructor (lines 20-68).\<close>

definition newGame :: "nat \<Rightarrow> game" where
  "newGame n =
     \<lparr>board = newBoard n,
      currentPlayer = BLACK,
      gameState = READY,
      gameSubState = NORMAL,
      gameResult = None,
      moveHistory = [],
      config = \<lparr>mode = PVP, playerColor = BLACK, difficulty = Medium, enableItems = True\<rparr>,
      aiTimer = False,
      isAiCalculating = False,
      itemSystem = newItemSystem,
      blindBoxes = [],
      playerItems = PerPlayer [] [],
      activeEffects = PerPlayer [] [],
      lastItemUsed = None,
      itemNameDisplayTimer = False,
      strategyGuidePositions = [],
      hasExtraMove = False,
      nextPlayerHasExtraMove = False,
      nextPlayerHasSlipPenalty = False,
      allowedPositions = [],
      notification = None,
      notificationTimer = False,
      preciseStrikePlayer = None,
      preciseStrikeHasExtraMove = False,
      gameMoveCountState = createGameMoveCountState BLACK,
      notifyCount = 0\<rparr>"

definition notifyGameStateChange :: "game \<Rightarrow> game" where
  "notifyGameStateChange g = g\<lparr>notifyCount := Suc (notifyCount g)\<rparr>"

section \<open>Move counting (lines 113-164)\<close>

definition recordMoveEvent ::
  "game \<Rightarrow> int \<Rightarrow> moveEventType \<Rightarrow> itemType option \<Rightarrow> int option \<Rightarrow> game" where
  "recordMoveEvent g t ty it extraMovesAdded =
     (let event = \<lparr>ev_timestamp = t, ev_player = currentPlayer g, ev_type = ty,
                   ev_itemType = it, ev_extraMovesAdded = extraMovesAdded\<rparr>;
          st = gameMoveCountState g;
          playerMoveCount = pget (players st) (currentPlayer g)
      in g\<lparr>gameMoveCountState :=
             st\<lparr>players := pset (players st) (currentPlayer g)
                   (playerMoveCount\<lparr>moveEvents := moveEvents playerMoveCount @ [event]\<rparr>)\<rparr>\<rparr>)"

definition addExtraMove :: "game \<Rightarrow> int \<Rightarrow> player \<Rightarrow> itemType option \<Rightarrow> game" where
  "addExtraMove g t p it =
     (let st = gameMoveCountState g;
          playerMoveCount = pget (players st) p;
          g1 = g\<lparr>gameMoveCountState :=
                   st\<lparr>players := pset (players st) p
                         (playerMoveCount\<lparr>extraMovesEarned := extraMovesEarned playerMoveCount + 1,
                                           currentExtraMoves := currentExtraMoves playerMoveCount + 1\<rparr>)\<rparr>\<rparr>
      in recordMoveEvent g1 t ITEM_TRIGGER it (Some 1))"

text \<open>One round of the loop of \<open>validateMoveCountConsistency\<close>, on one player's counts.\<close>

definition validateOne :: "playerMoveCount \<Rightarrow> playerMoveCount \<times> bool" where
  "validateOne moveCount =
     (let calculatedExtraMoves = extraMovesEarned moveCount - extraMovesUsed moveCount
      in if calculatedExtraMoves \<noteq> currentExtraMoves moveCount
         then (moveCount\<lparr>currentExtraMoves := calculatedExtraMoves\<rparr>, False)
         else (moveCount, True))"

definition validateMoveCountConsistency :: "game \<Rightarrow> game \<times> bool" where
  "validateMoveCountConsistency g =
     (let st = gameMoveCountState g;
          (b, okB) = validateOne (pget (players st) BLACK);
          (w, okW) = validateOne (pget (players st) WHITE)
      in (g\<lparr>gameMoveCountState := st\<lparr>players := PerPlayer b w\<rparr>\<rparr>, okB \<and> okW))"

section \<open>Axes, win detection and position evaluation (lines 1164-1345)\<close>

text \<open>
  \<open>checkWin\<close> and \<open>evaluatePosition\<close> both go through the same constant array of four
  \<^verbatim>\<open>{dx, dy}\<close> steps; the private methods they call are never given another step.
\<close>

datatype direction = Horizontal | Vertical | Diagonal1 | Diagonal2

fun dx :: "direction \<Rightarrow> int" where
  "dx Horizontal = 1"
| "dx Vertical = 0"
| "dx Diagonal1 = 1"
| "dx Diagonal2 = 1"

fun dy :: "direction \<Rightarrow> int" where
  "dy Horizontal = 0"
| "dy Vertical = 1"
| "dy Diagonal1 = 1"
| "dy Diagonal2 = -1"

definition directions :: "direction list" where
  "directions = [Horizontal, Vertical, Diagonal1, Diagonal2]"

text \<open>
  One step of a walk: \<^verbatim>\<open>x += dx; y += dy\<close> in the loop of the positive direction,
  \<^verbatim>\<open>x -= dx; y -= dy\<close> in the loop of the opposite one.
\<close>

fun stepFrom :: "direction \<Rightarrow> bool \<Rightarrow> position \<Rightarrow> position" where
  "stepFrom d True (x, y) = (x + dx d, y + dy d)"
| "stepFrom d False (x, y) = (x - dx d, y - dy d)"

text \<open>The number of steps a walk can still take inside a board of side \<open>n\<close>.\<close>

fun stepsLeft :: "nat \<Rightarrow> direction \<Rightarrow> bool \<Rightarrow> position \<Rightarrow> nat" where
  "stepsLeft n Vertical True (x, y) = nat (int n - y)"
| "stepsLeft n Vertical False (x, y) = nat (y + 1)"
| "stepsLeft n d True (x, y) = nat (int n - x)"
| "stepsLeft n d False (x, y) = nat (x + 1)"

text \<open>
  The two \<^verbatim>\<open>while\<close> loops of \<open>checkDirection\<close>: the first one pushes the cells it
  passes at the end of \<open>line\<close>, the second one puts them in front.
\<close>

function lineLoop ::
  "board \<Rightarrow> player \<Rightarrow> direction \<Rightarrow> bool \<Rightarrow> position \<Rightarrow> position list \<Rightarrow> position list" where
  "lineLoop b pl d fwd p line =
     (if isValidPosition b p \<and> getStone b p = Some pl
      then lineLoop b pl d fwd (stepFrom d fwd p) (if fwd then line @ [p] else p # line)
      else line)"
  by pat_completeness auto
termination
proof (relation "measure (\<lambda>(b, pl, d, fwd, p, line). stepsLeft (bsize b) d fwd p)")
  show "wf (measure (\<lambda>(b, pl, d, fwd, p, line). stepsLeft (bsize b) d fwd p))"
    by simp
next
  fix b :: board and pl :: player and d :: direction and fwd :: bool
    and p :: position and line :: "position list"
  assume "isValidPosition b p \<and> getStone b p = Some pl"
  then have v: "isValidPosition b p" by simp
  obtain x y where p: "p = (x, y)" by (cases p)
  have "stepsLeft (bsize b) d fwd (stepFrom d fwd (x, y)) < stepsLeft (bsize b) d fwd (x, y)"
    using v by (cases d; cases fwd) (auto simp: p)
  then show "((b, pl, d, fwd, stepFrom d fwd p, if fwd then line @ [p] else p # line),
              (b, pl, d, fwd, p, line))
             \<in> measure (\<lambda>(b, pl, d, fwd, p, line). stepsLeft (bsize b) d fwd p)"
    by (simp add: p)
qed

declare lineLoop.simps [simp del]

definition checkDirection :: "board \<Rightarrow> position \<Rightarrow> player \<Rightarrow> direction \<Rightarrow> position list" where
  "checkDirection b p pl d =
     (let line = [p];
          line = lineLoop b pl d True (stepFrom d True p) line;
          line = lineLoop b pl d False (stepFrom d False p) line
      in line)"

fun checkWinFrom :: "board \<Rightarrow> position \<Rightarrow> player \<Rightarrow> direction list \<Rightarrow> gameResult" where
  "checkWinFrom b p pl [] = \<lparr>winner = None, winningLine = []\<rparr>"
| "checkWinFrom b p pl (d # ds) =
     (let line = checkDirection b p pl d
      in if length line \<ge> 5 then \<lparr>winner = Some pl, winningLine = line\<rparr>
         else checkWinFrom b p pl ds)"

definition checkWin :: "game \<Rightarrow> position \<Rightarrow> player \<Rightarrow> gameResult" where
  "checkWin g p pl = checkWinFrom (board g) p pl directions"

fun calculateScore :: "int \<Rightarrow> int \<Rightarrow> int" where
  "calculateScore count openEnds =
     (if count = 5 then 1000000
      else if count = 4 then
        (if openEnds = 2 then 100000 else if openEnds = 1 then 10000 else 0)
      else if count = 3 then
        (if openEnds = 2 then 1000 else if openEnds = 1 then 100 else 0)
      else if count = 2 then
        (if openEnds = 2 then 10 else if openEnds = 1 then 5 else 0)
      else if count = 1 then 1
      else 0)"

text \<open>
  A \<^verbatim>\<open>while\<close> loop of \<open>evaluateDirection\<close>: it counts the stones it passes and
  returns the count with the cell it stopped at.
\<close>

function countLoop ::
  "board \<Rightarrow> player \<Rightarrow> direction \<Rightarrow> bool \<Rightarrow> position \<Rightarrow> int \<Rightarrow> int \<times> position" where
  "countLoop b pl d fwd p count =
     (if fst p \<ge> 0 \<and> fst p < int (getSize b) \<and> snd p \<ge> 0 \<and> snd p < int (getSize b)
         \<and> getStone b p = Some pl
      then countLoop b pl d fwd (stepFrom d fwd p) (count + 1)
      else (count, p))"
  by pat_completeness auto
termination
proof (relation "measure (\<lambda>(b, pl, d, fwd, p, count). stepsLeft (bsize b) d fwd p)")
  show "wf (measure (\<lambda>(b, pl, d, fwd, p, count). stepsLeft (bsize b) d fwd p))"
    by simp
next
  fix b :: board and pl :: player and d :: direction and fwd :: bool
    and p :: position and count :: int
  assume a: "fst p \<ge> 0 \<and> fst p < int (getSize b) \<and> snd p \<ge> 0 \<and> snd p < int (getSize b)
         \<and> getStone b p = Some pl"
  obtain x y where p: "p = (x, y)" by (cases p)
  have "stepsLeft (bsize b) d fwd (stepFrom d fwd (x, y)) < stepsLeft (bsize b) d fwd (x, y)"
    using a by (cases d; cases fwd) (auto simp: p getSize_def)
  then show "((b, pl, d, fwd, stepFrom d fwd p, count + 1), (b, pl, d, fwd, p, count))
             \<in> measure (\<lambda>(b, pl, d, fwd, p, count). stepsLeft (bsize b) d fwd p)"
    by (simp add: p)
qed

declare countLoop.simps [simp del]

definition isOpenEnd :: "board \<Rightarrow> position \<Rightarrow> bool" where
  "isOpenEnd b p =
     (fst p \<ge> 0 \<and> fst p < int (getSize b) \<and> snd p \<ge> 0 \<and> snd p < int (getSize b)
      \<and> isEmpty b p)"

definition evaluateDirection :: "game \<Rightarrow> position \<Rightarrow> player \<Rightarrow> direction \<Rightarrow> int" where
  "evaluateDirection g p pl d =
     (let b = board g;
          count = 1;
          openEnds = 0;
          (count, stop) = countLoop b pl d True (stepFrom d True p) count;
          openEnds = (if isOpenEnd b stop then openEnds + 1 else openEnds);
          (count, stop) = countLoop b pl d False (stepFrom d False p) count;
          openEnds = (if isOpenEnd b stop then openEnds + 1 else openEnds)
      in calculateScore count openEnds)"

definition evaluatePosition :: "game \<Rightarrow> position \<Rightarrow> int" where
  "evaluatePosition g p =
     (let aiColor = currentPlayer g;
          playerColor = (if aiColor = BLACK then WHITE else BLACK);
          score = foldl (\<lambda>score dir.
                    score + evaluateDirection g p aiColor dir
                          + evaluateDirection g p playerColor dir) 0 directions;
          n = int (getSize (board g));
          centerX = n div 2;
          centerY = n div 2;
          distanceFromCenter = \<bar>fst p - centerX\<bar> + \<bar>snd p - centerY\<bar>
      in score + (10 - distanceFromCenter) * 2)"

section \<open>Item effects (lines 653-1044 and 1119-1157)\<close>

definition showNotification :: "game \<Rightarrow> notice \<Rightarrow> game" where
  "showNotification g message = g\<lparr>notification := Some message, notificationTimer := True\<rparr>"

definition clearNotification :: "game \<Rightarrow> game" where
  "clearNotification g = g\<lparr>notification := None, notificationTimer := False\<rparr>"

definition removeEffect :: "game \<Rightarrow> player \<Rightarrow> itemType \<Rightarrow> game" where
  "removeEffect g p it =
     (let updatedPlayerItems = filter (\<lambda>item. pi_itemType item \<noteq> it) (pget (playerItems g) p);
          g1 = g\<lparr>playerItems := pset (playerItems g) p updatedPlayerItems\<rparr>;
          updatedActiveEffects = filter (\<lambda>effect. pi_itemType effect \<noteq> it) (pget (activeEffects g1) p)
      in g1\<lparr>activeEffects := pset (activeEffects g1) p updatedActiveEffects\<rparr>)"

definition addContinuousEffect :: "game \<Rightarrow> int \<Rightarrow> player \<Rightarrow> itemType \<Rightarrow> int \<Rightarrow> game" where
  "addContinuousEffect g t p it duration =
     (let newItem = \<lparr>pi_itemType = it, acquiredAt = t, activatedAt = Some t,
                     expiresAt = Some (t + duration * 1000 * 60), isActive = True\<rparr>;
          g1 = g\<lparr>playerItems := pset (playerItems g) p (pget (playerItems g) p @ [newItem])\<rparr>
      in g1\<lparr>activeEffects := pset (activeEffects g1) p (pget (activeEffects g1) p @ [newItem])\<rparr>)"

definition hasToughenHeart :: "game \<Rightarrow> player \<Rightarrow> bool" where
  "hasToughenHeart g p = list_ex (\<lambda>effect. pi_itemType effect = TOUGHEN_HEART) (pget (activeEffects g) p)"

text \<open>The stones of one player, in the order of the row-major scan that collects them.\<close>

definition stonesOf :: "board \<Rightarrow> player \<Rightarrow> position list" where
  "stonesOf b p = filter (\<lambda>pos. getStone b pos = Some p) (scanCells (getSize b))"

definition emptyCells :: "board \<Rightarrow> position list" where
  "emptyCells b = filter (\<lambda>pos. isEmpty b pos) (scanCells (getSize b))"

definition performChaosStrike :: "env \<Rightarrow> game \<Rightarrow> player \<Rightarrow> game" where
  "performChaosStrike e g p =
     (let opponent = (if p = BLACK then WHITE else BLACK)
      in if hasToughenHeart g opponent
         then showNotification (removeEffect g opponent TOUGHEN_HEART) (ImmuneToAttack opponent)
         else let opponentStones = stonesOf (board g) opponent
              in if length opponentStones > 0
                 then let idx = randomIndex (r_strike e) (length opponentStones);
                          targetPosition = opponentStones ! idx
                      in g\<lparr>board := fst (removeStone (board g) targetPosition)\<rparr>
                 else g)"

definition performSelfMistake :: "env \<Rightarrow> game \<Rightarrow> player \<Rightarrow> game" where
  "performSelfMistake e g p =
     (if hasToughenHeart g p
      then showNotification (removeEffect g p TOUGHEN_HEART) (ImmuneToOwnMistake p)
      else let playerStones = stonesOf (board g) p
           in if length playerStones > 0
              then let idx = randomIndex (r_strike e) (length playerStones);
                       targetPosition = playerStones ! idx
                   in g\<lparr>board := fst (removeStone (board g) targetPosition)\<rparr>
              else g)"

definition performPreciseStrikeForAI :: "env \<Rightarrow> game \<Rightarrow> player \<Rightarrow> game" where
  "performPreciseStrikeForAI e g p =
     (let opponent = (if p = BLACK then WHITE else BLACK);
          opponentStones = stonesOf (board g) opponent
      in if length opponentStones = 0 then g
         else if hasToughenHeart g opponent
         then showNotification (removeEffect g opponent TOUGHEN_HEART) (ImmuneToPreciseStrike opponent)
         else let idx = randomIndex (r_strike e) (length opponentStones);
                  targetPosition = opponentStones ! idx
              in g\<lparr>board := fst (removeStone (board g) targetPosition)\<rparr>)"

text \<open>
  \<open>showStrategyGuide\<close> scores the empty cells with \<open>currentPlayer\<close> set to the
  triggering player, sorts them by descending score (the sort of an array is stable)
  and keeps the first three.
\<close>

definition showStrategyGuide :: "game \<Rightarrow> player \<Rightarrow> game" where
  "showStrategyGuide g p =
     (let g1 = g\<lparr>strategyGuidePositions := [], gameSubState := SHOWING_STRATEGY_GUIDE\<rparr>;
          availablePositions = emptyCells (board g1)
      in if length availablePositions = 0 then g1
         else let originalPlayer = currentPlayer g1;
                  g2 = g1\<lparr>currentPlayer := p\<rparr>;
                  scoredPositions = map (\<lambda>pos. (pos, evaluatePosition g2 pos)) availablePositions;
                  g3 = g2\<lparr>currentPlayer := originalPlayer\<rparr>;
                  sorted = sort_key (\<lambda>item. - snd item) scoredPositions;
                  topPositions = take 3 sorted
              in g3\<lparr>strategyGuidePositions := map fst topPositions\<rparr>)"

text \<open>The test that the side to move is the computer's.\<close>

definition isComputerTurn :: "game \<Rightarrow> bool" where
  "isComputerTurn g = (mode (config g) = PVE \<and> currentPlayer g \<noteq> playerColor (config g))"

definition triggerItemEffect :: "env \<Rightarrow> game \<Rightarrow> itemType \<Rightarrow> player \<Rightarrow> game" where
  "triggerItemEffect e g it p =
     (case it of
        CHAOS_STRIKE \<Rightarrow> performChaosStrike e g p
      | PRECISE_STRIKE \<Rightarrow>
          (if isComputerTurn g then performPreciseStrikeForAI e g p
           else g\<lparr>gameSubState := SELECTING_STRIKE_TARGET,
                  preciseStrikePlayer := Some p,
                  preciseStrikeHasExtraMove := hasExtraMove g,
                  hasExtraMove := False\<rparr>)
      | ACCELERATED_MOVE \<Rightarrow>
          (let g1 = addExtraMove g (e_now e) p (Some ACCELERATED_MOVE)
           in g1\<lparr>hasExtraMove :=
                   currentExtraMoves (pget (players (gameMoveCountState g1)) (currentPlayer g1)) > 0\<rparr>)
      | STRATEGY_GUIDE \<Rightarrow>
          (let originalCurrentPlayer = currentPlayer g;
               g1 = (if isComputerTurn g
                     then addExtraMove g (e_now e) p (Some STRATEGY_GUIDE)
                     else addExtraMove (showStrategyGuide g p) (e_now e) p (Some STRATEGY_GUIDE));
               g2 = g1\<lparr>hasExtraMove :=
                   currentExtraMoves (pget (players (gameMoveCountState g1)) originalCurrentPlayer) > 0\<rparr>
           in g2\<lparr>currentPlayer := originalCurrentPlayer\<rparr>)
      | TOUGHEN_HEART \<Rightarrow> addContinuousEffect g (e_now e) p it 1
      | SELF_MISTAKE \<Rightarrow> performSelfMistake e g p
      | OPPONENT_ACCELERATION \<Rightarrow> g\<lparr>nextPlayerHasExtraMove := True\<rparr>
      | SLIP_PENALTY \<Rightarrow> g\<lparr>nextPlayerHasSlipPenalty := True\<rparr>)"

text \<open>\<^verbatim>\<open>Array.prototype.findIndex\<close>; \<open>None\<close> stands for the result -1.\<close>

fun findIndex :: "('a \<Rightarrow> bool) \<Rightarrow> 'a list \<Rightarrow> nat option" where
  "findIndex P [] = None"
| "findIndex P (x # xs) =
     (if P x then Some 0 else (case findIndex P xs of None \<Rightarrow> None | Some i \<Rightarrow> Some (Suc i)))"

definition openBlindBoxAtPosition :: "env \<Rightarrow> game \<Rightarrow> position \<Rightarrow> game" where
  "openBlindBoxAtPosition e g p =
     (case findIndex (\<lambda>box. \<not> isOpened box \<and> fst (bb_position box) = fst p
                                \<and> snd (bb_position box) = snd p) (blindBoxes g) of
        None \<Rightarrow> g
      | Some blindBoxIndex \<Rightarrow>
          (let blindBox = blindBoxes g ! blindBoxIndex;
               g1 = g\<lparr>blindBoxes := (blindBoxes g)[blindBoxIndex := blindBox\<lparr>isOpened := True\<rparr>],
                      lastItemUsed := Some (bb_itemType blindBox)\<rparr>;
               g2 = triggerItemEffect e g1 (bb_itemType blindBox) (currentPlayer g1)
           in if gameSubState g2 = NORMAL
              then g2\<lparr>gameSubState := SHOWING_ITEM_NAME, itemNameDisplayTimer := True\<rparr>
              else g2))"

text \<open>The callback of the timer that \<open>openBlindBoxAtPosition\<close> starts.\<close>

definition itemNameTimerFires :: "game \<Rightarrow> game" where
  "itemNameTimerFires g =
     (let g1 = (if gameSubState g = SHOWING_ITEM_NAME then g\<lparr>gameSubState := NORMAL\<rparr> else g)
      in g1\<lparr>itemNameDisplayTimer := False\<rparr>)"

text \<open>The callback of the timer that \<open>showNotification\<close> starts.\<close>

definition notificationTimerFires :: "game \<Rightarrow> game" where
  "notificationTimerFires g = clearNotification g"

definition generateNewBlindBox :: "env \<Rightarrow> game \<Rightarrow> game" where
  "generateNewBlindBox e g =
     (let availablePositions =
            filter (\<lambda>pos. let hasBlindBox =
                               list_ex (\<lambda>box. \<not> isOpened box \<and> fst (bb_position box) = fst pos
                                                \<and> snd (bb_position box) = snd pos) (blindBoxes g)
                           in isEmpty (board g) pos \<and> \<not> hasBlindBox)
                   (scanCells (getSize (board g)));
          newBlindBox = generateBlindBox (itemSystem g) availablePositions (1 / 2)
                          (r_box_pos e) (r_box_pool e) (r_box_item e) (e_now e)
      in case newBlindBox of
           None \<Rightarrow> g
         | Some box \<Rightarrow> g\<lparr>blindBoxes := blindBoxes g @ [box]\<rparr>)"

text \<open>
  The loop of \<open>applySlipPenalty\<close>: at most three rounds, each moving one cell from the
  available ones to the allowed ones (\<^verbatim>\<open>splice(randomIndex, 1)\<close>).
\<close>

function slipLoop ::
  "(nat \<Rightarrow> draw) \<Rightarrow> nat \<Rightarrow> position list \<Rightarrow> position list \<Rightarrow> position list" where
  "slipLoop r i availablePositions allowed =
     (if i < 3 \<and> length availablePositions > 0
      then let idx = randomIndex (r i) (length availablePositions)
           in slipLoop r (i + 1)
                (take idx availablePositions @ drop (Suc idx) availablePositions)
                (allowed @ [availablePositions ! idx])
      else allowed)"
  by pat_completeness auto
termination
  by (relation "measure (\<lambda>(r, i, availablePositions, allowed). 3 - i)") auto

declare slipLoop.simps [simp del]

definition applySlipPenalty :: "env \<Rightarrow> game \<Rightarrow> game" where
  "applySlipPenalty e g =
     (let g1 = g\<lparr>allowedPositions := []\<rparr>;
          availablePositions = emptyCells (board g1)
      in g1\<lparr>allowedPositions := slipLoop (r_slip e) 0 availablePositions (allowedPositions g1)\<rparr>)"

section \<open>The commands of GomokuGame\<close>

text \<open>\<open>setConfig\<close> merges a partial configuration: a field that is given replaces the old one.\<close>

record partialConfig =
  new_mode :: "gameMode option"
  new_playerColor :: "player option"
  new_difficulty :: "aiDifficulty option"
  new_enableItems :: "bool option"

definition setConfig :: "game \<Rightarrow> partialConfig \<Rightarrow> game" where
  "setConfig g c =
     g\<lparr>config :=
         \<lparr>mode = (case new_mode c of None \<Rightarrow> mode (config g) | Some v \<Rightarrow> v),
          playerColor = (case new_playerColor c of None \<Rightarrow> playerColor (config g) | Some v \<Rightarrow> v),
          difficulty = (case new_difficulty c of None \<Rightarrow> difficulty (config g) | Some v \<Rightarrow> v),
          enableItems = (case new_enableItems c of None \<Rightarrow> enableItems (config g) | Some v \<Rightarrow> v)\<rparr>\<rparr>"

text \<open>\<^verbatim>\<open>isAiCalculating = true; aiTimer = setTimeout(...)\<close>: the computer's move is scheduled.\<close>

definition scheduleAIMove :: "game \<Rightarrow> game" where
  "scheduleAIMove g = g\<lparr>isAiCalculating := True, aiTimer := True\<rparr>"

definition startNewGame :: "game \<Rightarrow> game" where
  "startNewGame g =
     (let g = g\<lparr>aiTimer := False, isAiCalculating := False\<rparr>;
          g = g\<lparr>blindBoxes := [], lastItemUsed := None, itemNameDisplayTimer := False,
                strategyGuidePositions := [], gameSubState := NORMAL, hasExtraMove := False,
                nextPlayerHasExtraMove := False, nextPlayerHasSlipPenalty := False,
                allowedPositions := []\<rparr>;
          g = clearNotification g;
          g = g\<lparr>preciseStrikePlayer := None, preciseStrikeHasExtraMove := False\<rparr>;
          g = g\<lparr>gameMoveCountState := createGameMoveCountState (currentPlayer g)\<rparr>;
          g = g\<lparr>playerItems := PerPlayer [] [], activeEffects := PerPlayer [] []\<rparr>;
          g = g\<lparr>board := reset (board g), currentPlayer := BLACK, gameState := PLAYING,
                gameResult := None, moveHistory := []\<rparr>
      in if mode (config g) = PVE \<and> playerColor (config g) = WHITE
         then scheduleAIMove g else g)"

text \<open>
  \<open>makeMove\<close> while a strike target is being selected (lines 285-354).  Every path of
  this branch returns false; the function gives the state the call leaves.
\<close>

definition selectStrikeTarget :: "game \<Rightarrow> position \<Rightarrow> game" where
  "selectStrikeTarget g p =
     (case preciseStrikePlayer g of
        None \<Rightarrow> g\<lparr>gameSubState := NORMAL\<rparr>
      | Some striker \<Rightarrow>
          (let opponent = (if striker = BLACK then WHITE else BLACK)
           in if getStone (board g) p = Some opponent
              then let g1 = (if hasToughenHeart g opponent
                             then showNotification (removeEffect g opponent TOUGHEN_HEART)
                                    (ImmuneToPreciseStrike opponent)
                             else g\<lparr>board := fst (removeStone (board g) p)\<rparr>);
                       triggerPlayer = striker;
                       g2 = g1\<lparr>gameSubState := NORMAL\<rparr>;
                       g3 = g2\<lparr>hasExtraMove := preciseStrikeHasExtraMove g2\<rparr>;
                       g4 = g3\<lparr>preciseStrikePlayer := None, preciseStrikeHasExtraMove := False\<rparr>
                   in if \<not> hasExtraMove g4
                      then let g5 = g4\<lparr>currentPlayer :=
                                          (if triggerPlayer = BLACK then WHITE else BLACK)\<rparr>
                           in if isComputerTurn g5 then scheduleAIMove g5 else g5
                      else g4
              else g))"

text \<open>
  The block that \<open>makeMove\<close> (lines 487-491) and \<open>makeAIMove\<close> (lines 525-529) share:
  a pending hand-slip penalty is applied to the player who is now to move.
\<close>

definition applyPendingSlipPenalty :: "env \<Rightarrow> game \<Rightarrow> game" where
  "applyPendingSlipPenalty e g =
     (if nextPlayerHasSlipPenalty g
      then let g1 = applySlipPenalty e g;
               g2 = g1\<lparr>gameSubState := HAND_SLIP_PENALTY\<rparr>
           in g2\<lparr>nextPlayerHasSlipPenalty := False\<rparr>
      else g)"

text \<open>Whether \<open>position\<close> is one of the cells of \<open>allowedPositions\<close> (\<^verbatim>\<open>some\<close>).\<close>

definition isAllowedPosition :: "game \<Rightarrow> position \<Rightarrow> bool" where
  "isAllowedPosition g p =
     list_ex (\<lambda>pos. fst pos = fst p \<and> snd pos = snd p) (allowedPositions g)"

text \<open>
  The end of \<open>makeMove\<close> (lines 452-513): the mover uses up an extra move and stays on
  turn, or the turn passes and what was deferred to the next player takes effect.
\<close>

definition finishTurn :: "env \<Rightarrow> game \<Rightarrow> game" where
  "finishTurn e g =
     (if hasExtraMove g
      then let st = gameMoveCountState g;
               playerMoveCount = pget (players st) (currentPlayer g);
               playerMoveCount = playerMoveCount
                 \<lparr>extraMovesUsed := extraMovesUsed playerMoveCount + 1,
                  currentExtraMoves := currentExtraMoves playerMoveCount - 1\<rparr>;
               g1 = g\<lparr>gameMoveCountState :=
                        st\<lparr>players := pset (players st) (currentPlayer g) playerMoveCount\<rparr>\<rparr>;
               g2 = g1\<lparr>hasExtraMove := currentExtraMoves playerMoveCount > 0\<rparr>
           in fst (validateMoveCountConsistency g2)
      else let st = gameMoveCountState g;
               playerMoveCount = pget (players st) (currentPlayer g);
               g1 = g\<lparr>gameMoveCountState :=
                        st\<lparr>players := pset (players st) (currentPlayer g)
                              (playerMoveCount\<lparr>originalMoveCount :=
                                                  originalMoveCount playerMoveCount + 1\<rparr>)\<rparr>\<rparr>;
               g2 = g1\<lparr>currentPlayer := (if currentPlayer g1 = BLACK then WHITE else BLACK)\<rparr>;
               g3 = g2\<lparr>gameMoveCountState :=
                        (gameMoveCountState g2)\<lparr>mcs_currentPlayer := currentPlayer g2\<rparr>\<rparr>;
               g4 = (if nextPlayerHasExtraMove g3
                     then let h = addExtraMove g3 (e_now e) (currentPlayer g3)
                                    (Some OPPONENT_ACCELERATION);
                              h = h\<lparr>nextPlayerHasExtraMove := False\<rparr>
                          in h\<lparr>hasExtraMove :=
                                 currentExtraMoves
                                   (pget (players (gameMoveCountState h)) (currentPlayer h)) > 0\<rparr>
                     else g3);
               g5 = applyPendingSlipPenalty e g4;
               g6 = fst (validateMoveCountConsistency g5)
           in if isComputerTurn g6
                 \<and> (gameSubState g6 = NORMAL \<or> gameSubState g6 = SHOWING_ITEM_NAME
                    \<or> gameSubState g6 = HAND_SLIP_PENALTY)
              then scheduleAIMove g6 else g6)"

text \<open>
  \<open>makeMove\<close> from the win check on (lines 388-513), on the state that holds the new
  stone, the new history entry and the move event.  Every path returns true.
\<close>

definition afterPlacement :: "env \<Rightarrow> game \<Rightarrow> position \<Rightarrow> game" where
  "afterPlacement e g p =
     (let result = checkWin g p (currentPlayer g)
      in if winner result \<noteq> None
         then notifyGameStateChange (g\<lparr>gameState := OVER, gameResult := Some result\<rparr>)
         else if length (moveHistory g) = getSize (board g) * getSize (board g)
         then notifyGameStateChange
                (g\<lparr>gameState := OVER, gameResult := Some \<lparr>winner = None, winningLine = []\<rparr>\<rparr>)
         else let wasHandSlipPenaltyMove = isAllowedPosition g p;
                  g1 = (if wasHandSlipPenaltyMove \<and> length (allowedPositions g) > 0
                        then let h = g\<lparr>allowedPositions := []\<rparr>
                             in if gameSubState h = HAND_SLIP_PENALTY
                                then h\<lparr>gameSubState := NORMAL\<rparr> else h
                        else g);
                  g2 = (if gameSubState g1 = SHOWING_STRATEGY_GUIDE
                        then g1\<lparr>gameSubState := NORMAL, strategyGuidePositions := []\<rparr>
                        else g1);
                  g3 = openBlindBoxAtPosition e g2 p
              in if gameSubState g3 \<noteq> NORMAL \<and> gameSubState g3 \<noteq> SHOWING_ITEM_NAME
                    \<and> gameSubState g3 \<noteq> SHOWING_STRATEGY_GUIDE
                 then (if enableItems (config g3) then generateNewBlindBox e g3 else g3)
                 else let g4 = (if enableItems (config g3) then generateNewBlindBox e g3 else g3)
                      in finishTurn e g4)"

definition makeMove :: "env \<Rightarrow> game \<Rightarrow> position \<Rightarrow> game \<times> bool" where
  "makeMove e g p =
     (if gameState g \<noteq> PLAYING then (g, False)
      else if mode (config g) = PVE \<and> currentPlayer g \<noteq> playerColor (config g) then (g, False)
      else if gameSubState g = SELECTING_STRIKE_TARGET then (selectStrikeTarget g p, False)
      else if length (allowedPositions g) > 0 \<and> \<not> isAllowedPosition g p then (g, False)
      else case placeStone (board g) p (currentPlayer g) (e_now e) of
             (b', False) \<Rightarrow> (g, False)
           | (b', True) \<Rightarrow>
               (let g1 = g\<lparr>board := b'\<rparr>;
                    mv = \<lparr>mv_position = p, mv_player = currentPlayer g1, mv_timestamp = e_now e\<rparr>;
                    g2 = g1\<lparr>moveHistory := moveHistory g1 @ [mv]\<rparr>;
                    g3 = (if hasExtraMove g2
                          then recordMoveEvent g2 (e_now e) EXTRA_MOVE None None
                          else recordMoveEvent g2 (e_now e) NORMAL_MOVE None None)
                in (afterPlacement e g3 p, True)))"

text \<open>
  The computer's choice in \<open>makeAIMove\<close> (lines 556-565): the best score starts at
  \<^verbatim>\<open>-Infinity\<close> (\<open>None\<close>) and a cell replaces the best one only on a strictly higher score.
\<close>

definition bestStep :: "game \<Rightarrow> int option \<times> position \<Rightarrow> position \<Rightarrow> int option \<times> position" where
  "bestStep g best pos =
     (let score = evaluatePosition g pos
      in if (case fst best of None \<Rightarrow> True | Some bestScore \<Rightarrow> score > bestScore)
         then (Some score, pos) else best)"

definition chooseBestPosition :: "game \<Rightarrow> position list \<Rightarrow> position" where
  "chooseBestPosition g availablePositions =
     snd (foldl (bestStep g) (None, hd availablePositions) availablePositions)"

text \<open>The cells the computer chooses from (lines 531-549).\<close>

definition aiCandidates :: "game \<Rightarrow> position list" where
  "aiCandidates g =
     (if gameSubState g = HAND_SLIP_PENALTY \<and> length (allowedPositions g) > 0
      then allowedPositions g
      else emptyCells (board g))"

text \<open>
  \<open>makeAIMove\<close> from the win check on (lines 578-647), on the state that holds the new
  stone and the new history entry.
\<close>

definition aiAfterPlacement :: "env \<Rightarrow> game \<Rightarrow> position \<Rightarrow> game" where
  "aiAfterPlacement e g bestPosition =
     (let result = checkWin g bestPosition (currentPlayer g)
      in if winner result \<noteq> None
         then notifyGameStateChange (g\<lparr>gameState := OVER, gameResult := Some result\<rparr>)
         else if length (moveHistory g) = getSize (board g) * getSize (board g)
         then notifyGameStateChange
                (g\<lparr>gameState := OVER, gameResult := Some \<lparr>winner = None, winningLine = []\<rparr>\<rparr>)
         else let g4 = (if gameSubState g = HAND_SLIP_PENALTY
                        then g\<lparr>gameSubState := NORMAL, allowedPositions := []\<rparr>
                        else g);
                  g5 = openBlindBoxAtPosition e g4 bestPosition;
                  g6 = (if enableItems (config g5) then generateNewBlindBox e g5 else g5);
                  g7 = (if nextPlayerHasExtraMove g6
                        then let h = addExtraMove g6 (e_now e) (currentPlayer g6)
                                       (Some OPPONENT_ACCELERATION);
                                 h = h\<lparr>nextPlayerHasExtraMove := False\<rparr>
                             in h\<lparr>hasExtraMove :=
                                    currentExtraMoves
                                      (pget (players (gameMoveCountState h)) (currentPlayer h)) > 0\<rparr>
                        else g6)
              in if hasExtraMove g7
                 then let h = recordMoveEvent g7 (e_now e) EXTRA_MOVE None None;
                          st = gameMoveCountState h;
                          playerMoveCount = pget (players st) (currentPlayer h);
                          playerMoveCount = playerMoveCount
                            \<lparr>extraMovesUsed := extraMovesUsed playerMoveCount + 1,
                             currentExtraMoves := currentExtraMoves playerMoveCount - 1\<rparr>;
                          h = h\<lparr>gameMoveCountState :=
                                 st\<lparr>players := pset (players st) (currentPlayer h)
                                                   playerMoveCount\<rparr>\<rparr>;
                          h = h\<lparr>hasExtraMove := currentExtraMoves playerMoveCount > 0\<rparr>;
                          h = fst (validateMoveCountConsistency h)
                      in notifyGameStateChange h
                 else notifyGameStateChange
                        (g7\<lparr>currentPlayer :=
                              (if currentPlayer g7 = BLACK then WHITE else BLACK)\<rparr>))"

definition makeAIMove :: "env \<Rightarrow> game \<Rightarrow> game" where
  "makeAIMove e g =
     (if gameState g \<noteq> PLAYING then g
      else let g1 = applyPendingSlipPenalty e g;
               availablePositions = aiCandidates g1
           in if length availablePositions = 0 then g1
              else let bestPosition = chooseBestPosition g1 availablePositions;
                       g2 = g1\<lparr>board := fst (placeStone (board g1) bestPosition
                                                (currentPlayer g1) (e_now e))\<rparr>;
                       mv = \<lparr>mv_position = bestPosition, mv_player = currentPlayer g2,
                             mv_timestamp = e_now e\<rparr>;
                       g3 = g2\<lparr>moveHistory := moveHistory g2 @ [mv]\<rparr>
                   in aiAfterPlacement e g3 bestPosition)"

text \<open>
  The callback of the timer stored in \<open>aiTimer\<close>.  (The timer that \<open>makeAIMove\<close>
  starts for its own next extra move is stored nowhere; its callback is \<open>makeAIMove\<close>.)
\<close>

definition aiTimerFires :: "env \<Rightarrow> game \<Rightarrow> game" where
  "aiTimerFires e g = makeAIMove e (g\<lparr>isAiCalculating := False, aiTimer := False\<rparr>)"

text \<open>\<open>GomokuGame.undoMove\<close> (lines 1351-1408); \<open>popMove\<close> is its pair of pops.\<close>

definition popMove :: "game \<Rightarrow> game" where
  "popMove g = g\<lparr>board := fst (undoMove (board g)), moveHistory := butlast (moveHistory g)\<rparr>"

definition game_undoMove :: "game \<Rightarrow> game \<times> bool" where
  "game_undoMove g =
     (if gameState g = READY \<or> length (moveHistory g) = 0 then (g, False)
      else let g1 = (if isAiCalculating g \<and> aiTimer g
                     then g\<lparr>aiTimer := False, isAiCalculating := False\<rparr> else g);
               g2 = (if mode (config g1) = PVE
                     then let lastMove = last (moveHistory g1);
                              isComputerMove = (mv_player lastMove \<noteq> playerColor (config g1));
                              h = (if isComputerMove \<and> length (moveHistory g1) \<ge> 2
                                   then popMove (popMove g1)
                                   else popMove g1)
                          in h\<lparr>currentPlayer := playerColor (config h)\<rparr>
                     else let h = popMove g1
                          in h\<lparr>currentPlayer :=
                                 (if currentPlayer h = BLACK then WHITE else BLACK)\<rparr>);
               g3 = g2\<lparr>gameState := PLAYING, gameResult := None\<rparr>
           in (g3\<lparr>gameSubState := NORMAL, strategyGuidePositions := [], allowedPositions := [],
                   preciseStrikePlayer := None, preciseStrikeHasExtraMove := False\<rparr>, True))"

definition restart :: "game \<Rightarrow> game" where
  "restart g = startNewGame g"

definition pause :: "game \<Rightarrow> game" where
  "pause g = (if gameState g = PLAYING then g\<lparr>gameState := PAUSED\<rparr> else g)"

definition resume :: "game \<Rightarrow> game" where
  "resume g = (if gameState g = PAUSED then g\<lparr>gameState := PLAYING\<rparr> else g)"

definition setBoardSize :: "game \<Rightarrow> nat \<Rightarrow> game" where
  "setBoardSize g n =
     (let g1 = g\<lparr>aiTimer := False, isAiCalculating := False\<rparr>;
          g2 = g1\<lparr>board := newBoard n\<rparr>
      in notifyGameStateChange (startNewGame g2))"

section \<open>The states of a game\<close>

text \<open>
  The states an engine object can be seen in: it is constructed with a board of side 15
  or 19, and then any of its public commands is called, or one of its timers fires.
  Timers carry no precondition here (a callback may run whenever it was once
  scheduled), so the relation covers every run of the engine and possibly more.
\<close>

inductive reachable :: "game \<Rightarrow> bool" where
  r_new: "n = 15 \<or> n = 19 \<Longrightarrow> reachable (newGame n)"
| r_setConfig: "reachable g \<Longrightarrow> reachable (setConfig g c)"
| r_startNewGame: "reachable g \<Longrightarrow> reachable (startNewGame g)"
| r_restart: "reachable g \<Longrightarrow> reachable (restart g)"
| r_makeMove: "reachable g \<Longrightarrow> reachable (fst (makeMove e g p))"
| r_undoMove: "reachable g \<Longrightarrow> reachable (fst (game_undoMove g))"
| r_pause: "reachable g \<Longrightarrow> reachable (pause g)"
| r_resume: "reachable g \<Longrightarrow> reachable (resume g)"
| r_setBoardSize: "reachable g \<Longrightarrow> n = 15 \<or> n = 19 \<Longrightarrow> reachable (setBoardSize g n)"
| r_aiTimer: "reachable g \<Longrightarrow> reachable (aiTimerFires e g)"
| r_aiAgain: "reachable g \<Longrightarrow> reachable (makeAIMove e g)"
| r_itemNameTimer: "reachable g \<Longrightarrow> reachable (itemNameTimerFires g)"
| r_notificationTimer: "reachable g \<Longrightarrow> reachable (notificationTimerFires g)"

text \<open>The counts of one player, and the equation the engine keeps between them.\<close>

definition moveCountOf :: "game \<Rightarrow> player \<Rightarrow> playerMoveCount" where
  "moveCountOf g p = pget (players (gameMoveCountState g)) p"

definition extraMovesConsistent :: "game \<Rightarrow> bool" where
  "extraMovesConsistent g =
     (currentExtraMoves (moveCountOf g BLACK)
        = extraMovesEarned (moveCountOf g BLACK) - extraMovesUsed (moveCountOf g BLACK)
      \<and> currentExtraMoves (moveCountOf g WHITE)
        = extraMovesEarned (moveCountOf g WHITE) - extraMovesUsed (moveCountOf g WHITE))"

text \<open>
  Two facts that tie the sub-state to the fields beside it: a strike target is selected
  only for a recorded striker, and cells are allowed only under the hand-slip penalty.
\<close>

definition subStateConsistent :: "game \<Rightarrow> bool" where
  "subStateConsistent g =
     ((gameSubState g = SELECTING_STRIKE_TARGET \<longrightarrow> preciseStrikePlayer g \<noteq> None)
      \<and> (allowedPositions g \<noteq> [] \<longrightarrow> gameSubState g = HAND_SLIP_PENALTY))"

text \<open>The cells of a line through \<open>p\<close> along an axis: \<open>cellOn d p k\<close> is \<open>k\<close> steps from \<open>p\<close>.\<close>

definition cellOn :: "direction \<Rightarrow> position \<Rightarrow> int \<Rightarrow> position" where
  "cellOn d p k = (fst p + k * dx d, snd p + k * dy d)"

definition holds :: "board \<Rightarrow> player \<Rightarrow> position \<Rightarrow> bool" where
  "holds b pl q = (isValidPosition b q \<and> getStone b q = Some pl)"

text \<open>
  \<open>line\<close> is the maximal contiguous run of \<open>pl\<close> through \<open>p\<close> along \<open>d\<close>: the cells from
  \<open>m\<close> steps behind \<open>p\<close> to \<open>n\<close> steps ahead, in that order, all of them (but \<open>p\<close>
  itself, which is taken as given) holding a stone of \<open>pl\<close>, and neither the next cell
  ahead nor the next cell behind holding one.
\<close>

definition maximalRun :: "board \<Rightarrow> player \<Rightarrow> position \<Rightarrow> direction \<Rightarrow> position list \<Rightarrow> bool" where
  "maximalRun b pl p d line =
     (\<exists>m n :: nat.
        line = map (cellOn d p) [- int m .. int n]
        \<and> (\<forall>k \<in> {- int m .. int n}. k \<noteq> 0 \<longrightarrow> holds b pl (cellOn d p k))
        \<and> \<not> holds b pl (cellOn d p (int n + 1))
        \<and> \<not> holds b pl (cellOn d p (- int m - 1)))"

text \<open>The first axis, in the order of the array, whose run has five cells or more.\<close>

definition firstWinningLine :: "board \<Rightarrow> position \<Rightarrow> player \<Rightarrow> position list option" where
  "firstWinningLine b p pl =
     (case filter (\<lambda>d. length (checkDirection b p pl d) \<ge> 5) directions of
        [] \<Rightarrow> None
      | d # ds \<Rightarrow> Some (checkDirection b p pl d))"

text \<open>\<open>p\<close> comes before \<open>q\<close> in the row-major scan of the board (\<open>y\<close> outside, \<open>x\<close> inside).\<close>

definition rowMajorBefore :: "position \<Rightarrow> position \<Rightarrow> bool" where
  "rowMajorBefore p q = (snd p < snd q \<or> (snd p = snd q \<and> fst p < fst q))"

text \<open>
  \<open>best\<close> is the first cell of highest score in the list \<open>cands\<close>: every cell before it
  scores strictly lower, no cell after it scores higher.
\<close>

definition firstBest :: "game \<Rightarrow> position list \<Rightarrow> position \<Rightarrow> bool" where
  "firstBest g cands best =
     (\<exists>before after.
        cands = before @ best # after
        \<and> (\<forall>q \<in> set before. evaluatePosition g q < evaluatePosition g best)
        \<and> (\<forall>q \<in> set after. evaluatePosition g q \<le> evaluatePosition g best))"

text \<open>The cell \<open>makeAIMove\<close> puts its stone on: the best of its candidates.\<close>

definition aiChoice :: "env \<Rightarrow> game \<Rightarrow> position" where
  "aiChoice e g =
     (let g1 = applyPendingSlipPenalty e g
      in chooseBestPosition g1 (aiCandidates g1))"

text \<open>What the three attacks leave alone: they change the grid of the board, the effects and the notice only.\<close>

definition sameButGrid :: "game \<Rightarrow> game \<Rightarrow> bool" where
  "sameButGrid g' g =
     (moves (board g') = moves (board g) \<and> bsize (board g') = bsize (board g)
      \<and> (wf_board (board g) \<longrightarrow> wf_board (board g'))
      \<and> currentPlayer g' = currentPlayer g
      \<and> moveHistory g' = moveHistory g
      \<and> gameMoveCountState g' = gameMoveCountState g
      \<and> gameState g' = gameState g
      \<and> gameSubState g' = gameSubState g
      \<and> allowedPositions g' = allowedPositions g
      \<and> preciseStrikePlayer g' = preciseStrikePlayer g
      \<and> config g' = config g)"

text \<open>
  What opening a blind box can do to the fields the invariants speak of: the sub-state
  stays, or becomes the selection of a strike target (with the striker recorded), the
  strategy guide or the display of the item name.
\<close>

definition itemStep :: "game \<Rightarrow> game \<Rightarrow> bool" where
  "itemStep g' g =
     (moves (board g') = moves (board g) \<and> bsize (board g') = bsize (board g)
      \<and> (wf_board (board g) \<longrightarrow> wf_board (board g'))
      \<and> currentPlayer g' = currentPlayer g
      \<and> moveHistory g' = moveHistory g
      \<and> (extraMovesConsistent g \<longrightarrow> extraMovesConsistent g')
      \<and> gameState g' = gameState g
      \<and> allowedPositions g' = allowedPositions g
      \<and> config g' = config g
      \<and> ((gameSubState g' = gameSubState g \<and> preciseStrikePlayer g' = preciseStrikePlayer g)
         \<or> (gameSubState g' = SELECTING_STRIKE_TARGET \<and> preciseStrikePlayer g' \<noteq> None)
         \<or> (gameSubState g' = SHOWING_STRATEGY_GUIDE
            \<and> preciseStrikePlayer g' = preciseStrikePlayer g)
         \<or> (gameSubState g' = SHOWING_ITEM_NAME
            \<and> preciseStrikePlayer g' = preciseStrikePlayer g)))"

section \<open>Concrete inputs\<close>

text \<open>
  An environment for the examples: the clock reads 1000 and every draw is 0, so every
  random pick takes the first candidate.
\<close>

definition env0 :: env where
  "env0 = \<lparr>e_now = 1000, r_strike = Draw 0 0, r_box_pos = Draw 0 0, r_box_pool = Draw 0 0,
           r_box_item = Draw 0 0, r_slip = (\<lambda>i. Draw 0 0)\<rparr>"

text \<open>A game of two players on the 15 x 15 board, just started.\<close>

definition game0 :: game where
  "game0 = startNewGame (newGame 15)"

text \<open>
  WHITE has a stone at (8, 8) and has opened two TOUGHEN_HEART boxes: the effect of the
  item was triggered for WHITE twice.
\<close>

definition gameToughened :: game where
  "gameToughened =
     triggerItemEffect env0
       (triggerItemEffect env0
          (game0\<lparr>board := fst (placeStone (board game0) (8, 8) WHITE 1000)\<rparr>)
          TOUGHEN_HEART WHITE)
       TOUGHEN_HEART WHITE"

text \<open>
  A game of two players without items in which BLACK has placed (0, 0), (0, 1), (0, 2)
  and (0, 3), WHITE has answered each time, and BLACK is to move.
\<close>

definition gameFour :: game where
  "gameFour =
     foldl (\<lambda>g p. fst (makeMove env0 g p))
       (startNewGame (setConfig (newGame 15)
          \<lparr>new_mode = None, new_playerColor = None, new_difficulty = None,
           new_enableItems = Some False\<rparr>))
       [(0, 0), (7, 7), (0, 1), (8, 7), (0, 2), (9, 7), (0, 3), (10, 8)]"

text \<open>
  A game against the computer: the human plays BLACK, the computer has four WHITE
  stones from (3, 7) to (6, 7) and is to move under a hand-slip penalty that allows
  it the cells (2, 7), (7, 7) and (12, 12).
\<close>

definition gameVersusAI :: game where
  "gameVersusAI =
     (let g = startNewGame (setConfig (newGame 15)
                \<lparr>new_mode = Some PVE, new_playerColor = Some BLACK, new_difficulty = None,
                 new_enableItems = Some False\<rparr>);
          b = foldl (\<lambda>b (p, pl). fst (placeStone b p pl 1000)) (board g)
                [((0, 0), BLACK), ((3, 7), WHITE), ((14, 0), BLACK), ((4, 7), WHITE),
                 ((0, 14), BLACK), ((5, 7), WHITE), ((14, 14), BLACK), ((6, 7), WHITE),
                 ((7, 0), BLACK)]
      in g\<lparr>board := b, moveHistory := moves b, currentPlayer := WHITE,
           gameSubState := HAND_SLIP_PENALTY,
           allowedPositions := [(2, 7), (7, 7), (12, 12)]\<rparr>)"

text \<open>
  A game against the computer (WHITE) after BLACK (7, 7), WHITE (7, 8), BLACK (8, 8),
  with WHITE to move under a hand-slip penalty.  The penalty drew, out of the 222 empty
  cells in row-major order, first the last one (draw 221/222), then the first one
  (draw 0), then the cell at index 13 of the remaining 220 (draw 13/220).
\<close>

definition envTie :: env where
  "envTie = \<lparr>e_now = 1000, r_strike = Draw 0 0, r_box_pos = Draw 0 0, r_box_pool = Draw 0 0,
             r_box_item = Draw 0 0,
             r_slip = (\<lambda>i. if i = 0 then Draw 221 0 else if i = 1 then Draw 0 0 else Draw 13 206)\<rparr>"

definition gameTie :: game where
  "gameTie =
     (let g = startNewGame (setConfig (newGame 15)
                \<lparr>new_mode = Some PVE, new_playerColor = Some BLACK, new_difficulty = None,
                 new_enableItems = None\<rparr>);
          b = foldl (\<lambda>b (p, pl). fst (placeStone b p pl 1000)) (board g)
                [((7, 7), BLACK), ((7, 8), WHITE), ((8, 8), BLACK)];
          g = g\<lparr>board := b, moveHistory := moves b, currentPlayer := WHITE,
                nextPlayerHasSlipPenalty := True\<rparr>
      in applyPendingSlipPenalty envTie g)"

section \<open>Board: shape and frame lemmas\<close>

lemma wf_newBoard: "wf_board (newBoard n)"
  by (simp add: wf_board_def newBoard_def initializeGrid_def list_all_iff)

lemma wf_reset: "wf_board (reset b)"
  by (simp add: wf_board_def reset_def initializeGrid_def list_all_iff)

lemma length_setCell: "length (setCell g p v) = length g"
  by (cases p) simp

lemma rows_setCell:
  assumes "list_all (\<lambda>row. length row = n) g"
  shows "list_all (\<lambda>row. length row = n) (setCell g p v)"
proof -
  obtain x y where p: "p = (x, y)" by (cases p)
  have "\<And>row. row \<in> set (g[nat y := (g ! nat y)[nat x := v]]) \<Longrightarrow> length row = n"
  proof -
    fix row
    assume "row \<in> set (g[nat y := (g ! nat y)[nat x := v]])"
    then have "row \<in> insert ((g ! nat y)[nat x := v]) (set g)"
      using set_update_subset_insert by fastforce
    then show "length row = n"
    proof
      assume r: "row = (g ! nat y)[nat x := v]"
      show ?thesis
      proof (cases "nat y < length g")
        case True
        then have "length (g ! nat y) = n"
          using assms by (simp add: list_all_length)
        then show ?thesis using r by simp
      next
        case False
        then have "g[nat y := (g ! nat y)[nat x := v]] = g"
          by (simp add: list_update_beyond)
        then have "row \<in> set g"
          using \<open>row \<in> set (g[nat y := (g ! nat y)[nat x := v]])\<close> by simp
        then show ?thesis using assms by (simp add: list_all_iff)
      qed
    next
      assume "row \<in> set g"
      then show ?thesis using assms by (simp add: list_all_iff)
    qed
  qed
  then show ?thesis by (simp add: p list_all_iff)
qed

lemma wf_setCell: "wf_board b \<Longrightarrow> wf_board (b\<lparr>grid := setCell (grid b) p v\<rparr>)"
  by (simp add: wf_board_def length_setCell rows_setCell)

lemma wf_placeStone: "wf_board b \<Longrightarrow> wf_board (fst (placeStone b p pl now))"
  by (simp add: placeStone_def wf_board_def length_setCell rows_setCell)

lemma wf_removeStone: "wf_board b \<Longrightarrow> wf_board (fst (removeStone b p))"
  by (simp add: removeStone_def wf_board_def length_setCell rows_setCell)

lemma wf_undoMove: "wf_board b \<Longrightarrow> wf_board (fst (undoMove b))"
  by (simp add: undoMove_def Let_def wf_board_def length_setCell rows_setCell)

lemma bsize_placeStone: "bsize (fst (placeStone b p pl now)) = bsize b"
  by (simp add: placeStone_def)

lemma bsize_removeStone: "bsize (fst (removeStone b p)) = bsize b"
  by (simp add: removeStone_def)

lemma bsize_undoMove: "bsize (fst (undoMove b)) = bsize b"
  by (simp add: undoMove_def Let_def)

text \<open>Writing a cell and clearing it again gives the grid back when the cell was empty.\<close>

lemma setCell_setCell: "setCell (setCell g p v) p w = setCell g p w"
proof -
  obtain x y where p: "p = (x, y)" by (cases p)
  show ?thesis
  proof (cases "nat y < length g")
    case True
    then show ?thesis by (simp add: p)
  next
    case False
    then show ?thesis by (simp add: p list_update_beyond)
  qed
qed

lemma setCell_same:
  assumes "cellAt g p = v"
  shows "setCell g p v = g"
proof -
  obtain x y where p: "p = (x, y)" by (cases p)
  have v: "v = g ! nat y ! nat x"
    using assms by (simp add: p)
  have "g[nat y := (g ! nat y)[nat x := g ! nat y ! nat x]] = g"
    by (simp only: list_update_id)
  then show ?thesis by (simp add: p v)
qed

lemma cellAt_setCell_same:
  assumes "nat (snd p) < length g" "nat (fst p) < length (g ! nat (snd p))"
  shows "cellAt (setCell g p v) p = v"
  using assms by (cases p) simp

lemma cellAt_setCell_other:
  assumes "p \<noteq> q" "0 \<le> fst p" "0 \<le> snd p" "0 \<le> fst q" "0 \<le> snd q"
  shows "cellAt (setCell g p v) q = cellAt g q"
proof -
  obtain x y where p: "p = (x, y)" by (cases p)
  obtain x' y' where q: "q = (x', y')" by (cases q)
  show ?thesis
  proof (cases "y = y'")
    case True
    then have "x \<noteq> x'" using assms(1) p q by simp
    then have ne: "nat x \<noteq> nat x'" using assms p q by simp
    show ?thesis
    proof (cases "nat y < length g")
      case True
      then show ?thesis using ne \<open>y = y'\<close> by (simp add: p q)
    next
      case False
      then show ?thesis by (simp add: p q list_update_beyond)
    qed
  next
    case False
    then have "nat y \<noteq> nat y'" using assms p q by simp
    then show ?thesis by (simp add: p q)
  qed
qed

lemma valid_in_grid:
  assumes "wf_board b" "isValidPosition b p"
  shows "nat (snd p) < length (grid b) \<and> nat (fst p) < length (grid b ! nat (snd p))"
proof -
  obtain x y where p: "p = (x, y)" by (cases p)
  have "nat y < bsize b"
    using assms(2) by (simp add: p nat_less_iff)
  then have y: "nat y < length (grid b)"
    using assms(1) by (simp add: wf_board_def)
  then have "length (grid b ! nat y) = bsize b"
    using assms(1) by (simp add: wf_board_def list_all_length)
  moreover have "nat x < bsize b"
    using assms(2) by (simp add: p nat_less_iff)
  ultimately show ?thesis using y by (simp add: p)
qed

lemma placeStone_undoMove:
  assumes "placeStone b p pl now = (b', True)"
  shows "undoMove b' = (b, Some \<lparr>mv_position = p, mv_player = pl, mv_timestamp = now\<rparr>)"
proof -
  have e: "isEmpty b p"
    using assms by (auto simp: placeStone_def split: if_splits)
  then have c: "cellAt (grid b) p = None"
    by (simp add: isEmpty_def split: if_splits)
  have b': "b' = b\<lparr>grid := setCell (grid b) p (Some pl),
                   moves := moves b @ [\<lparr>mv_position = p, mv_player = pl, mv_timestamp = now\<rparr>]\<rparr>"
    using assms e by (simp add: placeStone_def)
  have "setCell (setCell (grid b) p (Some pl)) p None = grid b"
    using c by (simp add: setCell_setCell setCell_same)
  then show ?thesis
    by (simp add: b' undoMove_def)
qed

lemma placeStones_snoc:
  "placeStones b (ps @ [(p, pl, now)]) =
     (case placeStones b ps of
        None \<Rightarrow> None
      | Some b1 \<Rightarrow> (case placeStone b1 p pl now of (b2, True) \<Rightarrow> Some b2 | (b2, False) \<Rightarrow> None))"
proof (induction ps arbitrary: b)
  case Nil
  show ?case by (simp split: prod.splits bool.splits)
next
  case (Cons a ps)
  obtain q ql t where a: "a = (q, ql, t)" by (cases a)
  show ?case
    using Cons.IH by (simp add: a split: prod.splits bool.splits)
qed

section \<open>Board: the claims about undoMove and removeStone\<close>

text \<open>
  C7.  From any board, after N placements that all succeeded (the last one of player
  \<open>pl\<close> at \<open>p\<close>, stamped \<open>now\<close>), \<open>undoMove\<close> returns exactly that N-th move and the
  board it leaves, grid and move stack, is the board after the first N-1 placements.
  On an empty move stack it returns nothing and leaves the board as it is.
\<close>

theorem undoMove_restores_previous_board:
  "(placeStones b0 (ps @ [(p, pl, now)]) = Some bN \<longrightarrow>
      (\<exists>bPrev. placeStones b0 ps = Some bPrev \<and>
         undoMove bN = (bPrev, Some \<lparr>mv_position = p, mv_player = pl, mv_timestamp = now\<rparr>)))
   \<and> (moves b = [] \<longrightarrow> undoMove b = (b, None))"
proof (intro conjI impI)
  assume a: "placeStones b0 (ps @ [(p, pl, now)]) = Some bN"
  then obtain bPrev where prev: "placeStones b0 ps = Some bPrev"
    by (auto simp: placeStones_snoc split: option.splits)
  then have "placeStone bPrev p pl now = (bN, True)"
    using a by (auto simp: placeStones_snoc split: prod.splits bool.splits)
  then have "undoMove bN = (bPrev, Some \<lparr>mv_position = p, mv_player = pl, mv_timestamp = now\<rparr>)"
    by (rule placeStone_undoMove)
  then show "\<exists>bPrev. placeStones b0 ps = Some bPrev \<and>
         undoMove bN = (bPrev, Some \<lparr>mv_position = p, mv_player = pl, mv_timestamp = now\<rparr>)"
    using prev by simp
next
  assume "moves b = []"
  then show "undoMove b = (b, None)" by (simp add: undoMove_def)
qed

lemma getStone_setCell_same:
  assumes "wf_board b" "isValidPosition b p"
  shows "getStone (b\<lparr>grid := setCell (grid b) p v\<rparr>) p = v"
proof -
  have "isValidPosition (b\<lparr>grid := setCell (grid b) p v\<rparr>) p"
    using assms(2) by (cases p) simp
  then show ?thesis
    using valid_in_grid [OF assms] by (simp add: getStone_def cellAt_setCell_same)
qed

lemma getStone_setCell_other:
  assumes "q \<noteq> p" "isValidPosition b p"
  shows "getStone (b\<lparr>grid := setCell (grid b) p v\<rparr>) q = getStone b q"
proof (cases "isValidPosition b q")
  case False
  then have "\<not> isValidPosition (b\<lparr>grid := setCell (grid b) p v\<rparr>) q"
    by (cases q) simp
  then show ?thesis using False by (simp add: getStone_def)
next
  case True
  then have vq: "isValidPosition (b\<lparr>grid := setCell (grid b) p v\<rparr>) q"
    by (cases q) simp
  have q0: "0 \<le> fst q" "0 \<le> snd q" using True by (cases q, simp)+
  have p0: "0 \<le> fst p" "0 \<le> snd p" using assms(2) by (cases p, simp)+
  have "cellAt (setCell (grid b) p v) q = cellAt (grid b) q"
    using assms(1) p0 q0 by (simp add: cellAt_setCell_other)
  then show ?thesis using True vq by (simp add: getStone_def)
qed

lemma isValidPosition_grid_update [simp]:
  "isValidPosition (b\<lparr>grid := g\<rparr>) p = isValidPosition b p"
  by (cases p) simp

lemma isValidPosition_moves_update [simp]:
  "isValidPosition (b\<lparr>moves := ms\<rparr>) p = isValidPosition b p"
  by (cases p) simp

lemma getStone_moves_update [simp]: "getStone (b\<lparr>moves := ms\<rparr>) p = getStone b p"
  by (simp add: getStone_def)

lemma isEmpty_iff: "isEmpty b p = (isValidPosition b p \<and> getStone b p = None)"
  by (auto simp: isEmpty_def getStone_def)

lemma removeStone_moves: "moves (fst (removeStone b p)) = moves b"
  by (simp add: removeStone_def)

lemma removeStone_fails:
  "\<not> isValidPosition b p \<or> getStone b p = None \<Longrightarrow> removeStone b p = (b, False)"
  by (auto simp: removeStone_def getStone_def)

lemma removeStone_succeeds:
  assumes "isValidPosition b p" "getStone b p \<noteq> None"
  shows "removeStone b p = (b\<lparr>grid := setCell (grid b) p None\<rparr>, True)"
  using assms by (auto simp: removeStone_def getStone_def)

lemma getStone_removeStone_other:
  "q \<noteq> p \<Longrightarrow> getStone (fst (removeStone b p)) q = getStone b q"
proof (cases "isValidPosition b p \<and> getStone b p \<noteq> None")
  case True
  assume "q \<noteq> p"
  then show ?thesis
    using True by (simp add: removeStone_succeeds getStone_setCell_other)
next
  case False
  then show ?thesis by (simp add: removeStone_fails)
qed

lemma getStone_removeStone_same:
  "wf_board b \<Longrightarrow> getStone (fst (removeStone b p)) p = None"
proof (cases "isValidPosition b p \<and> getStone b p \<noteq> None")
  case True
  assume "wf_board b"
  then show ?thesis
    using True by (simp add: removeStone_succeeds getStone_setCell_same)
next
  case False
  then show ?thesis by (auto simp: removeStone_fails getStone_def)
qed

lemma placeStone_succeeds:
  "isEmpty b p \<Longrightarrow>
   placeStone b p pl t =
     (b\<lparr>grid := setCell (grid b) p (Some pl),
        moves := moves b @ [\<lparr>mv_position = p, mv_player = pl, mv_timestamp = t\<rparr>]\<rparr>, True)"
  by (simp add: placeStone_def)

lemma placeStone_fails: "\<not> isEmpty b p \<Longrightarrow> placeStone b p pl t = (b, False)"
  by (simp add: placeStone_def)

lemma getStone_placeStone_same:
  assumes "wf_board b" "isEmpty b p"
  shows "getStone (fst (placeStone b p pl t)) p = Some pl"
proof -
  have v: "isValidPosition b p" using assms(2) by (simp add: isEmpty_iff)
  have "getStone (b\<lparr>grid := setCell (grid b) p (Some pl)\<rparr>) p = Some pl"
    by (rule getStone_setCell_same [OF assms(1) v])
  then show ?thesis
    using assms(2) by (simp add: placeStone_succeeds)
qed

lemma getStone_placeStone_other:
  "q \<noteq> p \<Longrightarrow> getStone (fst (placeStone b p pl t)) q = getStone b q"
proof (cases "isEmpty b p")
  case True
  assume "q \<noteq> p"
  moreover have "isValidPosition b p" using True by (simp add: isEmpty_iff)
  ultimately have "getStone (b\<lparr>grid := setCell (grid b) p (Some pl)\<rparr>) q = getStone b q"
    by (rule getStone_setCell_other)
  then show ?thesis using True by (simp add: placeStone_succeeds)
next
  case False
  then show ?thesis by (simp add: placeStone_fails)
qed

text \<open>
  C8.  \<open>removeStone\<close> returns false and leaves the whole board as it is when the
  position is out of bounds or its cell is empty.  Otherwise it returns true, the cell
  is empty afterwards and every other cell reads as before.  In both cases the move
  stack (and the size) is the one before the call.
\<close>

theorem removeStone_clears_cell_keeps_stack:
  assumes "wf_board b"
  shows "(\<not> isValidPosition b p \<or> getStone b p = None \<longrightarrow> removeStone b p = (b, False))
       \<and> (isValidPosition b p \<and> getStone b p \<noteq> None \<longrightarrow>
            snd (removeStone b p) = True
            \<and> getStone (fst (removeStone b p)) p = None
            \<and> (\<forall>q. q \<noteq> p \<longrightarrow> getStone (fst (removeStone b p)) q = getStone b q))
       \<and> moves (fst (removeStone b p)) = moves b
       \<and> bsize (fst (removeStone b p)) = bsize b"
proof (intro conjI impI allI)
  assume "\<not> isValidPosition b p \<or> getStone b p = None"
  then show "removeStone b p = (b, False)" by (rule removeStone_fails)
next
  assume "isValidPosition b p \<and> getStone b p \<noteq> None"
  then show "snd (removeStone b p) = True" by (simp add: removeStone_succeeds)
next
  show "getStone (fst (removeStone b p)) p = None"
    using assms by (rule getStone_removeStone_same)
next
  fix q :: position
  assume "q \<noteq> p"
  then show "getStone (fst (removeStone b p)) q = getStone b q"
    by (rule getStone_removeStone_other)
next
  show "moves (fst (removeStone b p)) = moves b" by (rule removeStone_moves)
next
  show "bsize (fst (removeStone b p)) = bsize b" by (rule bsize_removeStone)
qed

section \<open>Engine: frame lemmas\<close>

lemma pget_pset [simp]: "pget (pset m q v) r = (if r = q then v else pget m r)"
  by (cases m; cases q; cases r) simp_all

lemma pget_PerPlayer: "pget (PerPlayer b w) r = (if r = BLACK then b else w)"
  by (cases r) simp_all

section \<open>Win detection: the line that checkDirection returns\<close>

lemma cellOn_zero [simp]: "cellOn d p 0 = p"
  by (simp add: cellOn_def)

lemma stepFrom_cellOn:
  "stepFrom d True (cellOn d p k) = cellOn d p (k + 1)"
  "stepFrom d False (cellOn d p k) = cellOn d p (k - 1)"
  by (simp_all add: cellOn_def algebra_simps)

lemma lineLoop_forward:
  "\<exists>n :: nat.
     lineLoop b pl d True (cellOn d p k) line = line @ map (cellOn d p) [k .. k + int n - 1]
     \<and> (\<forall>i \<in> {k .. k + int n - 1}. holds b pl (cellOn d p i))
     \<and> \<not> holds b pl (cellOn d p (k + int n))"
proof (induction b pl d "True" "cellOn d p k" line arbitrary: k rule: lineLoop.induct)
  case (1 b pl d line)
  show ?case
  proof (cases "holds b pl (cellOn d p k)")
    case False
    then have "lineLoop b pl d True (cellOn d p k) line = line"
      by (subst lineLoop.simps) (auto simp: holds_def)
    then show ?thesis using False by (intro exI [of _ 0]) simp
  next
    case True
    then have guard: "isValidPosition b (cellOn d p k) \<and> getStone b (cellOn d p k) = Some pl"
      by (simp add: holds_def)
    have "stepFrom d True (cellOn d p k) = cellOn d p (k + 1)"
      by (rule stepFrom_cellOn)
    from "1.hyps" [OF guard this]
    obtain n :: nat where
      run: "lineLoop b pl d True (cellOn d p (k + 1)) (line @ [cellOn d p k])
              = (line @ [cellOn d p k]) @ map (cellOn d p) [k + 1 .. k + 1 + int n - 1]"
      and all: "\<forall>i \<in> {k + 1 .. k + 1 + int n - 1}. holds b pl (cellOn d p i)"
      and stop: "\<not> holds b pl (cellOn d p (k + 1 + int n))"
      by auto
    have unfold: "lineLoop b pl d True (cellOn d p k) line
        = lineLoop b pl d True (cellOn d p (k + 1)) (line @ [cellOn d p k])"
      using guard by (subst lineLoop.simps) (simp add: stepFrom_cellOn)
    have range: "[k .. k + int (Suc n) - 1] = k # [k + 1 .. k + 1 + int n - 1]"
      by (simp add: upto_rec1 [of k "k + int n"] algebra_simps)
    have "lineLoop b pl d True (cellOn d p k) line
        = line @ map (cellOn d p) [k .. k + int (Suc n) - 1]"
      by (simp only: unfold run range) simp
    moreover have "\<forall>i \<in> {k .. k + int (Suc n) - 1}. holds b pl (cellOn d p i)"
    proof
      fix i assume "i \<in> {k .. k + int (Suc n) - 1}"
      then have "i = k \<or> i \<in> {k + 1 .. k + 1 + int n - 1}" by auto
      then show "holds b pl (cellOn d p i)" using True all by auto
    qed
    moreover have "\<not> holds b pl (cellOn d p (k + int (Suc n)))"
      using stop by (simp add: algebra_simps)
    ultimately show ?thesis by blast
  qed
qed

lemma lineLoop_backward:
  "\<exists>m :: nat.
     lineLoop b pl d False (cellOn d p k) line = map (cellOn d p) [k - int m + 1 .. k] @ line
     \<and> (\<forall>i \<in> {k - int m + 1 .. k}. holds b pl (cellOn d p i))
     \<and> \<not> holds b pl (cellOn d p (k - int m))"
proof (induction b pl d "False" "cellOn d p k" line arbitrary: k rule: lineLoop.induct)
  case (1 b pl d line)
  show ?case
  proof (cases "holds b pl (cellOn d p k)")
    case False
    then have "lineLoop b pl d False (cellOn d p k) line = line"
      by (subst lineLoop.simps) (auto simp: holds_def)
    then show ?thesis using False by (intro exI [of _ 0]) simp
  next
    case True
    then have guard: "isValidPosition b (cellOn d p k) \<and> getStone b (cellOn d p k) = Some pl"
      by (simp add: holds_def)
    have "stepFrom d False (cellOn d p k) = cellOn d p (k - 1)"
      by (rule stepFrom_cellOn)
    from "1.hyps" [OF guard this]
    obtain m :: nat where
      run: "lineLoop b pl d False (cellOn d p (k - 1)) (cellOn d p k # line)
              = map (cellOn d p) [k - 1 - int m + 1 .. k - 1] @ (cellOn d p k # line)"
      and all: "\<forall>i \<in> {k - 1 - int m + 1 .. k - 1}. holds b pl (cellOn d p i)"
      and stop: "\<not> holds b pl (cellOn d p (k - 1 - int m))"
      by auto
    have unfold: "lineLoop b pl d False (cellOn d p k) line
        = lineLoop b pl d False (cellOn d p (k - 1)) (cellOn d p k # line)"
      using guard by (subst lineLoop.simps) (simp add: stepFrom_cellOn)
    have range: "[k - int (Suc m) + 1 .. k] = [k - 1 - int m + 1 .. k - 1] @ [k]"
      by (simp add: upto_rec2 [of "k - int m" k] algebra_simps)
    have "lineLoop b pl d False (cellOn d p k) line
        = map (cellOn d p) [k - int (Suc m) + 1 .. k] @ line"
      by (simp only: unfold run range) simp
    moreover have "\<forall>i \<in> {k - int (Suc m) + 1 .. k}. holds b pl (cellOn d p i)"
    proof
      fix i assume "i \<in> {k - int (Suc m) + 1 .. k}"
      then have "i = k \<or> i \<in> {k - 1 - int m + 1 .. k - 1}" by auto
      then show "holds b pl (cellOn d p i)" using True all by auto
    qed
    moreover have "\<not> holds b pl (cellOn d p (k - int (Suc m)))"
      using stop by (simp add: algebra_simps)
    ultimately show ?thesis by blast
  qed
qed

lemma checkDirection_maximalRun: "maximalRun b pl p d (checkDirection b p pl d)"
proof -
  obtain n :: nat where
    f: "lineLoop b pl d True (cellOn d p 1) [p] = [p] @ map (cellOn d p) [1 .. 1 + int n - 1]"
    and fall: "\<forall>i \<in> {1 .. 1 + int n - 1}. holds b pl (cellOn d p i)"
    and fstop: "\<not> holds b pl (cellOn d p (1 + int n))"
    using lineLoop_forward [of b pl d p 1 "[p]"] by auto
  obtain m :: nat where
    g: "lineLoop b pl d False (cellOn d p (- 1)) ([p] @ map (cellOn d p) [1 .. 1 + int n - 1])
          = map (cellOn d p) [- 1 - int m + 1 .. - 1] @ ([p] @ map (cellOn d p) [1 .. 1 + int n - 1])"
    and gall: "\<forall>i \<in> {- 1 - int m + 1 .. - 1}. holds b pl (cellOn d p i)"
    and gstop: "\<not> holds b pl (cellOn d p (- 1 - int m))"
    using lineLoop_backward [of b pl d p "- 1" "[p] @ map (cellOn d p) [1 .. 1 + int n - 1]"]
    by auto
  have s1: "stepFrom d True p = cellOn d p 1"
    using stepFrom_cellOn(1) [of d p 0] by simp
  have s2: "stepFrom d False p = cellOn d p (- 1)"
    using stepFrom_cellOn(2) [of d p 0] by simp
  have split: "[- int m .. int n] = [- int m .. - 1] @ 0 # [1 .. int n]"
    using upto_split3 [of "- int m" 0 "int n"] by simp
  have "checkDirection b p pl d
      = map (cellOn d p) [- int m .. - 1] @ [p] @ map (cellOn d p) [1 .. int n]"
    using f g by (simp add: checkDirection_def s1 s2)
  then have line: "checkDirection b p pl d = map (cellOn d p) [- int m .. int n]"
    by (simp add: split)
  have "\<forall>k \<in> {- int m .. int n}. k \<noteq> 0 \<longrightarrow> holds b pl (cellOn d p k)"
  proof (intro ballI impI)
    fix k assume "k \<in> {- int m .. int n}" "k \<noteq> 0"
    then have "k \<in> {1 .. 1 + int n - 1} \<or> k \<in> {- 1 - int m + 1 .. - 1}" by auto
    then show "holds b pl (cellOn d p k)" using fall gall by auto
  qed
  moreover have "\<not> holds b pl (cellOn d p (int n + 1))"
    using fstop by (simp add: add.commute)
  moreover have "\<not> holds b pl (cellOn d p (- int m - 1))"
  proof -
    have e: "- int m - 1 = - 1 - int m" by arith
    show ?thesis unfolding e by (rule gstop)
  qed
  ultimately show ?thesis
    unfolding maximalRun_def using line by blast
qed

lemma checkWinFrom_first:
  "checkWinFrom b p pl ds =
     (case filter (\<lambda>d. length (checkDirection b p pl d) \<ge> 5) ds of
        [] \<Rightarrow> \<lparr>winner = None, winningLine = []\<rparr>
      | d # rest \<Rightarrow> \<lparr>winner = Some pl, winningLine = checkDirection b p pl d\<rparr>)"
  by (induction ds) (simp_all add: Let_def)

lemma checkWin_firstWinningLine:
  "checkWin g p pl =
     (case firstWinningLine (board g) p pl of
        None \<Rightarrow> \<lparr>winner = None, winningLine = []\<rparr>
      | Some line \<Rightarrow> \<lparr>winner = Some pl, winningLine = line\<rparr>)"
  by (simp add: checkWin_def checkWinFrom_first firstWinningLine_def split: list.splits)

lemma firstWinningLine_exists:
  assumes "d \<in> set directions" "5 \<le> length (checkDirection b p pl d)"
  shows "\<exists>d0 \<in> set directions.
           5 \<le> length (checkDirection b p pl d0)
           \<and> firstWinningLine b p pl = Some (checkDirection b p pl d0)"
proof -
  have "d \<in> set (filter (\<lambda>d. length (checkDirection b p pl d) \<ge> 5) directions)"
    using assms by simp
  then obtain d0 rest where
    f: "filter (\<lambda>d. length (checkDirection b p pl d) \<ge> 5) directions = d0 # rest"
    by (cases "filter (\<lambda>d. length (checkDirection b p pl d) \<ge> 5) directions") auto
  then have "d0 \<in> set (filter (\<lambda>d. length (checkDirection b p pl d) \<ge> 5) directions)"
    by simp
  then have "d0 \<in> set directions \<and> 5 \<le> length (checkDirection b p pl d0)"
    by simp
  then show ?thesis using f by (auto simp: firstWinningLine_def)
qed

section \<open>Win detection: what makeMove and makeAIMove record\<close>

lemma recordMoveEvent_frame [simp]:
  "board (recordMoveEvent g t ty it x) = board g"
  "currentPlayer (recordMoveEvent g t ty it x) = currentPlayer g"
  "moveHistory (recordMoveEvent g t ty it x) = moveHistory g"
  "gameState (recordMoveEvent g t ty it x) = gameState g"
  "gameSubState (recordMoveEvent g t ty it x) = gameSubState g"
  "allowedPositions (recordMoveEvent g t ty it x) = allowedPositions g"
  "preciseStrikePlayer (recordMoveEvent g t ty it x) = preciseStrikePlayer g"
  "config (recordMoveEvent g t ty it x) = config g"
  by (simp_all add: recordMoveEvent_def Let_def)

lemma afterPlacement_win:
  assumes "firstWinningLine (board g) p (currentPlayer g) = Some line"
  shows "afterPlacement e g p =
           notifyGameStateChange
             (g\<lparr>gameState := OVER,
                gameResult := Some \<lparr>winner = Some (currentPlayer g), winningLine = line\<rparr>\<rparr>)"
  using assms by (simp add: afterPlacement_def checkWin_firstWinningLine Let_def)

lemma makeMove_placed:
  assumes "gameState g = PLAYING" "\<not> isComputerTurn g"
    "gameSubState g \<noteq> SELECTING_STRIKE_TARGET"
    "allowedPositions g = [] \<or> isAllowedPosition g p"
    "isEmpty (board g) p"
  shows "makeMove e g p =
     (afterPlacement e
        (recordMoveEvent
           (g\<lparr>board := fst (placeStone (board g) p (currentPlayer g) (e_now e)),
              moveHistory := moveHistory g @
                [\<lparr>mv_position = p, mv_player = currentPlayer g, mv_timestamp = e_now e\<rparr>]\<rparr>)
           (e_now e) (if hasExtraMove g then EXTRA_MOVE else NORMAL_MOVE) None None) p,
      True)"
  using assms
  by (auto simp: makeMove_def isComputerTurn_def placeStone_succeeds Let_def)

lemma makeAIMove_placed_win:
  assumes "gameState g = PLAYING"
    "aiCandidates (applyPendingSlipPenalty e g) \<noteq> []"
    "firstWinningLine (fst (placeStone (board (applyPendingSlipPenalty e g)) (aiChoice e g)
        (currentPlayer (applyPendingSlipPenalty e g)) (e_now e))) (aiChoice e g)
        (currentPlayer (applyPendingSlipPenalty e g)) = Some line"
  shows "gameState (makeAIMove e g) = OVER
       \<and> gameResult (makeAIMove e g)
           = Some \<lparr>winner = Some (currentPlayer (applyPendingSlipPenalty e g)), winningLine = line\<rparr>
       \<and> board (makeAIMove e g)
           = fst (placeStone (board (applyPendingSlipPenalty e g)) (aiChoice e g)
               (currentPlayer (applyPendingSlipPenalty e g)) (e_now e))"
  using assms
  by (simp add: makeAIMove_def aiAfterPlacement_def aiChoice_def Let_def
      checkWin_firstWinningLine notifyGameStateChange_def)

lemma applyPendingSlipPenalty_frame [simp]:
  "board (applyPendingSlipPenalty e g) = board g"
  "currentPlayer (applyPendingSlipPenalty e g) = currentPlayer g"
  "moveHistory (applyPendingSlipPenalty e g) = moveHistory g"
  "gameState (applyPendingSlipPenalty e g) = gameState g"
  "config (applyPendingSlipPenalty e g) = config g"
  "preciseStrikePlayer (applyPendingSlipPenalty e g) = preciseStrikePlayer g"
  "gameMoveCountState (applyPendingSlipPenalty e g) = gameMoveCountState g"
  by (simp_all add: applyPendingSlipPenalty_def applySlipPenalty_def Let_def)

text \<open>
  C1.  A stone of the player to move is placed at \<open>p\<close> by \<open>makeMove\<close> (the call passes
  its guards and the cell is empty), or at the computer's choice by \<open>makeAIMove\<close>.
  On the board with the new stone, what \<open>checkDirection\<close> returns for an axis is the
  maximal contiguous run of the player's stones through the new stone, in line order.
  If some axis has a run of five or more cells, the call ends the game: the state is
  OVER, the winner is the player, and the winning line is the whole run of the first
  such axis (in the order horizontal, vertical, diagonal, anti-diagonal); \<open>makeMove\<close>
  returns true.
\<close>

theorem win_detection_records_full_run:
  assumes "wf_board (board g)"
  shows
    "(gameState g = PLAYING \<and> \<not> isComputerTurn g
        \<and> gameSubState g \<noteq> SELECTING_STRIKE_TARGET
        \<and> (allowedPositions g = [] \<or> isAllowedPosition g p)
        \<and> isEmpty (board g) p \<longrightarrow>
      (let pl = currentPlayer g;
           b' = fst (placeStone (board g) p pl (e_now e));
           g' = fst (makeMove e g p)
       in getStone b' p = Some pl
          \<and> (\<forall>d. maximalRun b' pl p d (checkDirection b' p pl d))
          \<and> (\<forall>d \<in> set directions. 5 \<le> length (checkDirection b' p pl d) \<longrightarrow>
               (\<exists>d0 \<in> set directions.
                  5 \<le> length (checkDirection b' p pl d0)
                  \<and> gameState g' = OVER
                  \<and> gameResult g'
                      = Some \<lparr>winner = Some pl, winningLine = checkDirection b' p pl d0\<rparr>
                  \<and> board g' = b'
                  \<and> snd (makeMove e g p)))))
     \<and> (gameState g = PLAYING
        \<and> aiCandidates (applyPendingSlipPenalty e g) \<noteq> []
        \<and> isEmpty (board g) (aiChoice e g) \<longrightarrow>
      (let pl = currentPlayer g;
           q = aiChoice e g;
           b' = fst (placeStone (board g) q pl (e_now e));
           g' = makeAIMove e g
       in getStone b' q = Some pl
          \<and> (\<forall>d. maximalRun b' pl q d (checkDirection b' q pl d))
          \<and> (\<forall>d \<in> set directions. 5 \<le> length (checkDirection b' q pl d) \<longrightarrow>
               (\<exists>d0 \<in> set directions.
                  5 \<le> length (checkDirection b' q pl d0)
                  \<and> gameState g' = OVER
                  \<and> gameResult g'
                      = Some \<lparr>winner = Some pl, winningLine = checkDirection b' q pl d0\<rparr>
                  \<and> board g' = b'))))"
proof (intro conjI impI)
  assume h: "gameState g = PLAYING \<and> \<not> isComputerTurn g
        \<and> gameSubState g \<noteq> SELECTING_STRIKE_TARGET
        \<and> (allowedPositions g = [] \<or> isAllowedPosition g p)
        \<and> isEmpty (board g) p"
  define pl where "pl = currentPlayer g"
  define b' where "b' = fst (placeStone (board g) p pl (e_now e))"
  define g3 where "g3 = recordMoveEvent
           (g\<lparr>board := b',
              moveHistory := moveHistory g @
                [\<lparr>mv_position = p, mv_player = pl, mv_timestamp = e_now e\<rparr>]\<rparr>)
           (e_now e) (if hasExtraMove g then EXTRA_MOVE else NORMAL_MOVE) None None"
  have mm: "makeMove e g p = (afterPlacement e g3 p, True)"
    using h makeMove_placed [of g p e] by (simp add: g3_def b'_def pl_def)
  have stone: "getStone b' p = Some pl"
    using assms h by (simp add: b'_def getStone_placeStone_same)
  have runs: "\<forall>d. maximalRun b' pl p d (checkDirection b' p pl d)"
    by (simp add: checkDirection_maximalRun)
  have wins: "\<forall>d \<in> set directions. 5 \<le> length (checkDirection b' p pl d) \<longrightarrow>
               (\<exists>d0 \<in> set directions.
                  5 \<le> length (checkDirection b' p pl d0)
                  \<and> gameState (fst (makeMove e g p)) = OVER
                  \<and> gameResult (fst (makeMove e g p))
                      = Some \<lparr>winner = Some pl, winningLine = checkDirection b' p pl d0\<rparr>
                  \<and> board (fst (makeMove e g p)) = b'
                  \<and> snd (makeMove e g p))"
  proof (intro ballI impI)
    fix d assume "d \<in> set directions" "5 \<le> length (checkDirection b' p pl d)"
    then obtain d0 where d0: "d0 \<in> set directions" "5 \<le> length (checkDirection b' p pl d0)"
      "firstWinningLine b' p pl = Some (checkDirection b' p pl d0)"
      using firstWinningLine_exists by blast
    have "firstWinningLine (board g3) p (currentPlayer g3) = Some (checkDirection b' p pl d0)"
      using d0(3) by (simp add: g3_def pl_def)
    then have "afterPlacement e g3 p =
           notifyGameStateChange
             (g3\<lparr>gameState := OVER,
                gameResult := Some \<lparr>winner = Some (currentPlayer g3),
                                     winningLine = checkDirection b' p pl d0\<rparr>\<rparr>)"
      by (rule afterPlacement_win)
    then have "gameState (fst (makeMove e g p)) = OVER
        \<and> gameResult (fst (makeMove e g p))
             = Some \<lparr>winner = Some pl, winningLine = checkDirection b' p pl d0\<rparr>
        \<and> board (fst (makeMove e g p)) = b'
        \<and> snd (makeMove e g p)"
      by (simp add: mm notifyGameStateChange_def) (simp add: g3_def pl_def)
    then show "\<exists>d0 \<in> set directions.
                  5 \<le> length (checkDirection b' p pl d0)
                  \<and> gameState (fst (makeMove e g p)) = OVER
                  \<and> gameResult (fst (makeMove e g p))
                      = Some \<lparr>winner = Some pl, winningLine = checkDirection b' p pl d0\<rparr>
                  \<and> board (fst (makeMove e g p)) = b'
                  \<and> snd (makeMove e g p)"
      using d0(1,2) by blast
  qed
  show "let pl = currentPlayer g;
           b' = fst (placeStone (board g) p pl (e_now e));
           g' = fst (makeMove e g p)
       in getStone b' p = Some pl
          \<and> (\<forall>d. maximalRun b' pl p d (checkDirection b' p pl d))
          \<and> (\<forall>d \<in> set directions. 5 \<le> length (checkDirection b' p pl d) \<longrightarrow>
               (\<exists>d0 \<in> set directions.
                  5 \<le> length (checkDirection b' p pl d0)
                  \<and> gameState g' = OVER
                  \<and> gameResult g'
                      = Some \<lparr>winner = Some pl, winningLine = checkDirection b' p pl d0\<rparr>
                  \<and> board g' = b'
                  \<and> snd (makeMove e g p)))"
    using stone runs wins unfolding Let_def b'_def pl_def by blast
next
  assume h: "gameState g = PLAYING
        \<and> aiCandidates (applyPendingSlipPenalty e g) \<noteq> []
        \<and> isEmpty (board g) (aiChoice e g)"
  define pl where "pl = currentPlayer g"
  define q where "q = aiChoice e g"
  define b' where "b' = fst (placeStone (board g) q pl (e_now e))"
  have stone: "getStone b' q = Some pl"
    using assms h by (simp add: b'_def q_def getStone_placeStone_same)
  have runs: "\<forall>d. maximalRun b' pl q d (checkDirection b' q pl d)"
    by (simp add: checkDirection_maximalRun)
  have wins: "\<forall>d \<in> set directions. 5 \<le> length (checkDirection b' q pl d) \<longrightarrow>
               (\<exists>d0 \<in> set directions.
                  5 \<le> length (checkDirection b' q pl d0)
                  \<and> gameState (makeAIMove e g) = OVER
                  \<and> gameResult (makeAIMove e g)
                      = Some \<lparr>winner = Some pl, winningLine = checkDirection b' q pl d0\<rparr>
                  \<and> board (makeAIMove e g) = b')"
  proof (intro ballI impI)
    fix d assume "d \<in> set directions" "5 \<le> length (checkDirection b' q pl d)"
    then obtain d0 where d0: "d0 \<in> set directions" "5 \<le> length (checkDirection b' q pl d0)"
      "firstWinningLine b' q pl = Some (checkDirection b' q pl d0)"
      using firstWinningLine_exists by blast
    have "gameState (makeAIMove e g) = OVER
        \<and> gameResult (makeAIMove e g)
             = Some \<lparr>winner = Some pl, winningLine = checkDirection b' q pl d0\<rparr>
        \<and> board (makeAIMove e g) = b'"
      using h d0(3) makeAIMove_placed_win [of g e "checkDirection b' q pl d0"]
      by (simp add: b'_def q_def pl_def)
    then show "\<exists>d0 \<in> set directions.
                  5 \<le> length (checkDirection b' q pl d0)
                  \<and> gameState (makeAIMove e g) = OVER
                  \<and> gameResult (makeAIMove e g)
                      = Some \<lparr>winner = Some pl, winningLine = checkDirection b' q pl d0\<rparr>
                  \<and> board (makeAIMove e g) = b'"
      using d0(1,2) by blast
  qed
  show "let pl = currentPlayer g;
           q = aiChoice e g;
           b' = fst (placeStone (board g) q pl (e_now e));
           g' = makeAIMove e g
       in getStone b' q = Some pl
          \<and> (\<forall>d. maximalRun b' pl q d (checkDirection b' q pl d))
          \<and> (\<forall>d \<in> set directions. 5 \<le> length (checkDirection b' q pl d) \<longrightarrow>
               (\<exists>d0 \<in> set directions.
                  5 \<le> length (checkDirection b' q pl d0)
                  \<and> gameState g' = OVER
                  \<and> gameResult g'
                      = Some \<lparr>winner = Some pl, winningLine = checkDirection b' q pl d0\<rparr>
                  \<and> board g' = b'))"
    using stone runs wins unfolding Let_def b'_def pl_def q_def by blast
qed

section \<open>Engine: what the helpers leave alone\<close>

lemma notifyGameStateChange_frame [simp]:
  "board (notifyGameStateChange g) = board g"
  "moveHistory (notifyGameStateChange g) = moveHistory g"
  "gameMoveCountState (notifyGameStateChange g) = gameMoveCountState g"
  "gameSubState (notifyGameStateChange g) = gameSubState g"
  "preciseStrikePlayer (notifyGameStateChange g) = preciseStrikePlayer g"
  "allowedPositions (notifyGameStateChange g) = allowedPositions g"
  "gameState (notifyGameStateChange g) = gameState g"
  "gameResult (notifyGameStateChange g) = gameResult g"
  by (simp_all add: notifyGameStateChange_def)

lemma addExtraMove_frame [simp]:
  "board (addExtraMove g t p it) = board g"
  "currentPlayer (addExtraMove g t p it) = currentPlayer g"
  "moveHistory (addExtraMove g t p it) = moveHistory g"
  "gameState (addExtraMove g t p it) = gameState g"
  "gameSubState (addExtraMove g t p it) = gameSubState g"
  "allowedPositions (addExtraMove g t p it) = allowedPositions g"
  "preciseStrikePlayer (addExtraMove g t p it) = preciseStrikePlayer g"
  "config (addExtraMove g t p it) = config g"
  by (simp_all add: addExtraMove_def Let_def)

lemma validate_frame [simp]:
  "board (fst (validateMoveCountConsistency g)) = board g"
  "currentPlayer (fst (validateMoveCountConsistency g)) = currentPlayer g"
  "moveHistory (fst (validateMoveCountConsistency g)) = moveHistory g"
  "gameState (fst (validateMoveCountConsistency g)) = gameState g"
  "gameSubState (fst (validateMoveCountConsistency g)) = gameSubState g"
  "allowedPositions (fst (validateMoveCountConsistency g)) = allowedPositions g"
  "preciseStrikePlayer (fst (validateMoveCountConsistency g)) = preciseStrikePlayer g"
  "config (fst (validateMoveCountConsistency g)) = config g"
  by (simp_all add: validateMoveCountConsistency_def Let_def split: prod.splits)

lemma showNotification_frame [simp]:
  "board (showNotification g m) = board g"
  "currentPlayer (showNotification g m) = currentPlayer g"
  "moveHistory (showNotification g m) = moveHistory g"
  "gameMoveCountState (showNotification g m) = gameMoveCountState g"
  "gameState (showNotification g m) = gameState g"
  "gameSubState (showNotification g m) = gameSubState g"
  "allowedPositions (showNotification g m) = allowedPositions g"
  "preciseStrikePlayer (showNotification g m) = preciseStrikePlayer g"
  "config (showNotification g m) = config g"
  by (simp_all add: showNotification_def)

lemma clearNotification_frame [simp]:
  "board (clearNotification g) = board g"
  "currentPlayer (clearNotification g) = currentPlayer g"
  "moveHistory (clearNotification g) = moveHistory g"
  "gameMoveCountState (clearNotification g) = gameMoveCountState g"
  "gameState (clearNotification g) = gameState g"
  "gameSubState (clearNotification g) = gameSubState g"
  "allowedPositions (clearNotification g) = allowedPositions g"
  "preciseStrikePlayer (clearNotification g) = preciseStrikePlayer g"
  "config (clearNotification g) = config g"
  by (simp_all add: clearNotification_def)

lemma removeEffect_frame [simp]:
  "board (removeEffect g p it) = board g"
  "currentPlayer (removeEffect g p it) = currentPlayer g"
  "moveHistory (removeEffect g p it) = moveHistory g"
  "gameMoveCountState (removeEffect g p it) = gameMoveCountState g"
  "gameState (removeEffect g p it) = gameState g"
  "gameSubState (removeEffect g p it) = gameSubState g"
  "allowedPositions (removeEffect g p it) = allowedPositions g"
  "preciseStrikePlayer (removeEffect g p it) = preciseStrikePlayer g"
  "config (removeEffect g p it) = config g"
  by (simp_all add: removeEffect_def Let_def)

lemma addContinuousEffect_frame [simp]:
  "board (addContinuousEffect g t p it n) = board g"
  "currentPlayer (addContinuousEffect g t p it n) = currentPlayer g"
  "moveHistory (addContinuousEffect g t p it n) = moveHistory g"
  "gameMoveCountState (addContinuousEffect g t p it n) = gameMoveCountState g"
  "gameState (addContinuousEffect g t p it n) = gameState g"
  "gameSubState (addContinuousEffect g t p it n) = gameSubState g"
  "allowedPositions (addContinuousEffect g t p it n) = allowedPositions g"
  "preciseStrikePlayer (addContinuousEffect g t p it n) = preciseStrikePlayer g"
  "config (addContinuousEffect g t p it n) = config g"
  by (simp_all add: addContinuousEffect_def Let_def)

lemma sameButGrid_removeStone: "sameButGrid (g\<lparr>board := fst (removeStone (board g) q)\<rparr>) g"
  by (simp add: sameButGrid_def removeStone_moves bsize_removeStone wf_removeStone)

lemma sameButGrid_refl: "sameButGrid g g"
  by (simp add: sameButGrid_def)

lemma sameButGrid_blocked: "sameButGrid (showNotification (removeEffect g p it) m) g"
  by (simp add: sameButGrid_def)

lemma performChaosStrike_frame: "sameButGrid (performChaosStrike e g p) g"
  by (simp add: performChaosStrike_def Let_def sameButGrid_removeStone sameButGrid_refl
      sameButGrid_blocked)

lemma performSelfMistake_frame: "sameButGrid (performSelfMistake e g p) g"
  by (simp add: performSelfMistake_def Let_def sameButGrid_removeStone sameButGrid_refl
      sameButGrid_blocked)

lemma performPreciseStrikeForAI_frame: "sameButGrid (performPreciseStrikeForAI e g p) g"
  by (simp add: performPreciseStrikeForAI_def Let_def sameButGrid_removeStone sameButGrid_refl
      sameButGrid_blocked)

lemma showStrategyGuide_frame [simp]:
  "board (showStrategyGuide g p) = board g"
  "currentPlayer (showStrategyGuide g p) = currentPlayer g"
  "moveHistory (showStrategyGuide g p) = moveHistory g"
  "gameMoveCountState (showStrategyGuide g p) = gameMoveCountState g"
  "gameState (showStrategyGuide g p) = gameState g"
  "gameSubState (showStrategyGuide g p) = SHOWING_STRATEGY_GUIDE"
  "allowedPositions (showStrategyGuide g p) = allowedPositions g"
  "preciseStrikePlayer (showStrategyGuide g p) = preciseStrikePlayer g"
  "config (showStrategyGuide g p) = config g"
  by (simp_all add: showStrategyGuide_def Let_def)

lemma generateNewBlindBox_frame [simp]:
  "board (generateNewBlindBox e g) = board g"
  "currentPlayer (generateNewBlindBox e g) = currentPlayer g"
  "moveHistory (generateNewBlindBox e g) = moveHistory g"
  "gameMoveCountState (generateNewBlindBox e g) = gameMoveCountState g"
  "gameState (generateNewBlindBox e g) = gameState g"
  "gameSubState (generateNewBlindBox e g) = gameSubState g"
  "allowedPositions (generateNewBlindBox e g) = allowedPositions g"
  "preciseStrikePlayer (generateNewBlindBox e g) = preciseStrikePlayer g"
  "config (generateNewBlindBox e g) = config g"
  "hasExtraMove (generateNewBlindBox e g) = hasExtraMove g"
  "nextPlayerHasExtraMove (generateNewBlindBox e g) = nextPlayerHasExtraMove g"
  "nextPlayerHasSlipPenalty (generateNewBlindBox e g) = nextPlayerHasSlipPenalty g"
  by (simp_all add: generateNewBlindBox_def Let_def split: option.splits)

section \<open>Engine: what an item does to the invariants\<close>

lemma extraMovesConsistent_cong:
  "gameMoveCountState g' = gameMoveCountState g \<Longrightarrow>
   extraMovesConsistent g' = extraMovesConsistent g"
  by (simp add: extraMovesConsistent_def moveCountOf_def)

lemma recordMoveEvent_consistent [simp]:
  "extraMovesConsistent (recordMoveEvent g t ty it x) = extraMovesConsistent g"
  by (simp add: extraMovesConsistent_def moveCountOf_def recordMoveEvent_def Let_def)

lemma addExtraMove_consistent [simp]:
  "extraMovesConsistent (addExtraMove g t p it) = extraMovesConsistent g"
  by (cases p)
    (auto simp: extraMovesConsistent_def moveCountOf_def addExtraMove_def recordMoveEvent_def
      Let_def)

lemma validateOne_consistent:
  "currentExtraMoves (fst (validateOne c)) = extraMovesEarned (fst (validateOne c))
     - extraMovesUsed (fst (validateOne c))
   \<and> extraMovesEarned (fst (validateOne c)) = extraMovesEarned c
   \<and> extraMovesUsed (fst (validateOne c)) = extraMovesUsed c
   \<and> originalMoveCount (fst (validateOne c)) = originalMoveCount c
   \<and> moveEvents (fst (validateOne c)) = moveEvents c
   \<and> pmc_player (fst (validateOne c)) = pmc_player c"
  by (simp add: validateOne_def Let_def)

lemma validate_moveCountOf:
  "moveCountOf (fst (validateMoveCountConsistency g)) p = fst (validateOne (moveCountOf g p))"
  by (cases p)
    (simp_all add: validateMoveCountConsistency_def moveCountOf_def Let_def split: prod.splits)

lemma validate_consistent [simp]:
  "extraMovesConsistent (fst (validateMoveCountConsistency g))"
  by (simp add: extraMovesConsistent_def validate_moveCountOf validateOne_consistent)

lemma itemStep_same: "sameButGrid g' g \<Longrightarrow> itemStep g' g"
  by (simp add: itemStep_def sameButGrid_def extraMovesConsistent_def moveCountOf_def)

lemma triggerItemEffect_step: "itemStep (triggerItemEffect e g it p) g"
proof (cases it)
  case CHAOS_STRIKE
  then show ?thesis
    by (simp add: triggerItemEffect_def itemStep_same performChaosStrike_frame)
next
  case PRECISE_STRIKE
  then show ?thesis
    using itemStep_same [OF performPreciseStrikeForAI_frame, of e g p]
    by (simp add: triggerItemEffect_def)
      (simp add: itemStep_def extraMovesConsistent_def moveCountOf_def)
next
  case ACCELERATED_MOVE
  define g1 where "g1 = addExtraMove g (e_now e) p (Some ACCELERATED_MOVE)"
  have r: "triggerItemEffect e g it p =
      g1\<lparr>hasExtraMove :=
           currentExtraMoves (pget (players (gameMoveCountState g1)) (currentPlayer g1)) > 0\<rparr>"
    using ACCELERATED_MOVE by (simp add: triggerItemEffect_def Let_def g1_def)
  have c: "extraMovesConsistent (triggerItemEffect e g it p) = extraMovesConsistent g1"
    unfolding r by (rule extraMovesConsistent_cong) simp
  have "extraMovesConsistent g1 = extraMovesConsistent g"
    by (simp add: g1_def)
  then show ?thesis
    using c by (simp add: itemStep_def) (simp add: r g1_def)
next
  case STRATEGY_GUIDE
  define g0 where "g0 = (if isComputerTurn g then g else showStrategyGuide g p)"
  define g1 where "g1 = addExtraMove g0 (e_now e) p (Some STRATEGY_GUIDE)"
  have r: "triggerItemEffect e g it p =
      g1\<lparr>hasExtraMove :=
           currentExtraMoves (pget (players (gameMoveCountState g1)) (currentPlayer g)) > 0,
         currentPlayer := currentPlayer g\<rparr>"
    using STRATEGY_GUIDE by (simp add: triggerItemEffect_def Let_def g1_def g0_def)
  have c: "extraMovesConsistent (triggerItemEffect e g it p) = extraMovesConsistent g1"
    unfolding r by (rule extraMovesConsistent_cong) simp
  have "extraMovesConsistent g0 = extraMovesConsistent g"
    by (rule extraMovesConsistent_cong) (simp add: g0_def)
  then have "extraMovesConsistent g1 = extraMovesConsistent g"
    by (simp add: g1_def)
  then show ?thesis
    using c by (simp add: itemStep_def) (simp add: r g1_def g0_def)
next
  case TOUGHEN_HEART
  then show ?thesis
    by (simp add: triggerItemEffect_def itemStep_def extraMovesConsistent_def moveCountOf_def)
next
  case SELF_MISTAKE
  then show ?thesis
    by (simp add: triggerItemEffect_def itemStep_same performSelfMistake_frame)
next
  case OPPONENT_ACCELERATION
  then show ?thesis
    by (simp add: triggerItemEffect_def itemStep_def extraMovesConsistent_def moveCountOf_def)
next
  case SLIP_PENALTY
  then show ?thesis
    by (simp add: triggerItemEffect_def itemStep_def extraMovesConsistent_def moveCountOf_def)
qed

lemma openBlindBoxAtPosition_step: "itemStep (openBlindBoxAtPosition e g p) g"
proof (cases "findIndex (\<lambda>box. \<not> isOpened box \<and> fst (bb_position box) = fst p
                                \<and> snd (bb_position box) = snd p) (blindBoxes g)")
  case None
  then show ?thesis
    by (simp add: openBlindBoxAtPosition_def itemStep_def)
next
  case (Some i)
  define g1 where "g1 = g\<lparr>blindBoxes := (blindBoxes g)[i := (blindBoxes g ! i)\<lparr>isOpened := True\<rparr>],
                      lastItemUsed := Some (bb_itemType (blindBoxes g ! i))\<rparr>"
  define g2 where "g2 = triggerItemEffect e g1 (bb_itemType (blindBoxes g ! i)) (currentPlayer g1)"
  have s2: "itemStep g2 g1"
    unfolding g2_def by (rule triggerItemEffect_step)
  have s12: "itemStep g2 g"
    using s2 by (simp add: itemStep_def g1_def extraMovesConsistent_def moveCountOf_def)
  have r: "openBlindBoxAtPosition e g p =
      (if gameSubState g2 = NORMAL
       then g2\<lparr>gameSubState := SHOWING_ITEM_NAME, itemNameDisplayTimer := True\<rparr> else g2)"
    using Some by (simp add: openBlindBoxAtPosition_def Let_def g1_def g2_def)
  show ?thesis
  proof (cases "gameSubState g2 = NORMAL")
    case False
    then show ?thesis using r s12 by simp
  next
    case True
    then have "gameSubState g2 = gameSubState g \<and> preciseStrikePlayer g2 = preciseStrikePlayer g"
      using s12 by (simp add: itemStep_def)
    then have "itemStep (g2\<lparr>gameSubState := SHOWING_ITEM_NAME, itemNameDisplayTimer := True\<rparr>) g"
      using s12 by (simp add: itemStep_def extraMovesConsistent_def moveCountOf_def)
    then show ?thesis using r True by simp
  qed
qed

section \<open>The computer's choice\<close>

lemma bestStep_fold:
  assumes "firstBest g pre b"
  shows "firstBest g (pre @ ys) (snd (foldl (bestStep g) (Some (evaluatePosition g b), b) ys))"
  using assms
proof (induction ys arbitrary: pre b)
  case Nil
  then show ?case by simp
next
  case (Cons y ys)
  from Cons.prems obtain before after where
    pre: "pre = before @ b # after"
    and lo: "\<forall>q \<in> set before. evaluatePosition g q < evaluatePosition g b"
    and hi: "\<forall>q \<in> set after. evaluatePosition g q \<le> evaluatePosition g b"
    unfolding firstBest_def by blast
  show ?case
  proof (cases "evaluatePosition g y > evaluatePosition g b")
    case True
    have "\<forall>q \<in> set pre. evaluatePosition g q < evaluatePosition g y"
      using pre lo hi True by auto
    then have "firstBest g (pre @ [y]) y"
      unfolding firstBest_def by (intro exI [of _ pre] exI [of _ "[]"]) simp
    from Cons.IH [OF this]
    have "firstBest g ((pre @ [y]) @ ys)
            (snd (foldl (bestStep g) (Some (evaluatePosition g y), y) ys))" .
    moreover have "bestStep g (Some (evaluatePosition g b), b) y = (Some (evaluatePosition g y), y)"
      using True by (simp add: bestStep_def Let_def)
    ultimately show ?thesis by simp
  next
    case False
    have "pre @ [y] = before @ b # (after @ [y])"
      by (simp add: pre)
    moreover have "\<forall>q \<in> set (after @ [y]). evaluatePosition g q \<le> evaluatePosition g b"
      using hi False by auto
    ultimately have "firstBest g (pre @ [y]) b"
      unfolding firstBest_def using lo by blast
    from Cons.IH [OF this]
    have "firstBest g ((pre @ [y]) @ ys)
            (snd (foldl (bestStep g) (Some (evaluatePosition g b), b) ys))" .
    moreover have "bestStep g (Some (evaluatePosition g b), b) y = (Some (evaluatePosition g b), b)"
      using False by (simp add: bestStep_def Let_def)
    ultimately show ?thesis by simp
  qed
qed

lemma chooseBestPosition_firstBest:
  assumes "cands \<noteq> []"
  shows "firstBest g cands (chooseBestPosition g cands)"
proof -
  obtain x xs where c: "cands = x # xs"
    using assms by (cases cands) auto
  have "firstBest g [x] x"
    unfolding firstBest_def by (intro exI [of _ "[]"]) simp
  from bestStep_fold [OF this, of xs]
  have "firstBest g (x # xs) (snd (foldl (bestStep g) (Some (evaluatePosition g x), x) xs))"
    by simp
  moreover have "bestStep g (None, x) x = (Some (evaluatePosition g x), x)"
    by (simp add: bestStep_def Let_def)
  ultimately show ?thesis
    by (simp add: chooseBestPosition_def c)
qed

lemma firstBest_in_set: "firstBest g cands best \<Longrightarrow> best \<in> set cands"
  by (auto simp: firstBest_def)

lemma firstBest_max:
  "firstBest g cands best \<Longrightarrow> q \<in> set cands \<Longrightarrow> evaluatePosition g q \<le> evaluatePosition g best"
  by (auto simp: firstBest_def less_imp_le)

lemma sorted_row: "sorted_wrt rowMajorBefore (map (\<lambda>x. (int x, int y)) [0..<n])"
proof -
  have "sorted_wrt (\<lambda>a b. rowMajorBefore (int a, int y) (int b, int y)) [0..<n]"
    by (rule sorted_wrt_mono_rel [OF _ sorted_wrt_upt]) (simp add: rowMajorBefore_def)
  then show ?thesis by (simp add: sorted_wrt_map)
qed

lemma sorted_rows:
  "sorted_wrt rowMajorBefore (concat (map (\<lambda>y. map (\<lambda>x. (int x, int y)) [0..<n]) [0..<m]))"
proof (induction m)
  case 0
  show ?case by simp
next
  case (Suc m)
  have "\<forall>p \<in> set (concat (map (\<lambda>y. map (\<lambda>x. (int x, int y)) [0..<n]) [0..<m])).
          \<forall>q \<in> set (map (\<lambda>x. (int x, int m)) [0..<n]). rowMajorBefore p q"
    by (auto simp: rowMajorBefore_def)
  then show ?case
    using Suc.IH sorted_row [of m n] by (simp add: sorted_wrt_append)
qed

lemma sorted_scanCells: "sorted_wrt rowMajorBefore (scanCells n)"
  by (simp add: scanCells_def sorted_rows)

lemma sorted_emptyCells: "sorted_wrt rowMajorBefore (emptyCells b)"
  by (simp add: emptyCells_def sorted_wrt_filter sorted_scanCells)

lemma firstBest_row_major:
  assumes "firstBest g cands best" "sorted_wrt rowMajorBefore cands"
    "q \<in> set cands" "q \<noteq> best" "evaluatePosition g q = evaluatePosition g best"
  shows "rowMajorBefore best q"
proof -
  from assms(1) obtain before after where
    c: "cands = before @ best # after"
    and lo: "\<forall>r \<in> set before. evaluatePosition g r < evaluatePosition g best"
    unfolding firstBest_def by blast
  have "q \<notin> set before" using lo assms(5) by auto
  then have "q \<in> set after" using assms(3,4) c by auto
  then show ?thesis using assms(2) c by (auto simp: sorted_wrt_append)
qed

lemma aiAfterPlacement_history: "moveHistory (aiAfterPlacement e g q) = moveHistory g"
proof -
  have o: "\<And>h. moveHistory (openBlindBoxAtPosition e h q) = moveHistory h"
    using openBlindBoxAtPosition_step by (simp add: itemStep_def)
  show ?thesis
    by (simp add: aiAfterPlacement_def Let_def o)
qed

lemma makeAIMove_history:
  assumes "gameState g = PLAYING" "aiCandidates (applyPendingSlipPenalty e g) \<noteq> []"
  shows "moveHistory (makeAIMove e g) =
           moveHistory g @ [\<lparr>mv_position = aiChoice e g, mv_player = currentPlayer g,
                             mv_timestamp = e_now e\<rparr>]"
  using assms
  by (simp add: makeAIMove_def Let_def aiAfterPlacement_history aiChoice_def)

lemma aiAfterPlacement_stack: "moves (board (aiAfterPlacement e g q)) = moves (board g)"
proof -
  have o: "\<And>h. moves (board (openBlindBoxAtPosition e h q)) = moves (board h)"
    using openBlindBoxAtPosition_step by (simp add: itemStep_def)
  show ?thesis
    by (simp add: aiAfterPlacement_def Let_def o)
qed

lemma makeAIMove_stack:
  assumes "gameState g = PLAYING" "aiCandidates (applyPendingSlipPenalty e g) \<noteq> []"
    "isEmpty (board g) (aiChoice e g)"
  shows "moves (board (makeAIMove e g)) =
           moves (board g) @ [\<lparr>mv_position = aiChoice e g, mv_player = currentPlayer g,
                               mv_timestamp = e_now e\<rparr>]"
  using assms
  by (simp add: makeAIMove_def Let_def aiAfterPlacement_stack aiChoice_def placeStone_succeeds)

lemma evaluateDirection_cong:
  "board g' = board g \<Longrightarrow> evaluateDirection g' q pl d = evaluateDirection g q pl d"
  by (simp add: evaluateDirection_def)

lemma evaluatePosition_cong:
  "board g' = board g \<Longrightarrow> currentPlayer g' = currentPlayer g \<Longrightarrow>
   evaluatePosition g' q = evaluatePosition g q"
  by (simp add: evaluatePosition_def evaluateDirection_cong [of g' g])

lemma firstBest_cong:
  "board g' = board g \<Longrightarrow> currentPlayer g' = currentPlayer g \<Longrightarrow>
   firstBest g' cands best = firstBest g cands best"
  by (simp add: firstBest_def evaluatePosition_cong [of g' g])

text \<open>
  C9 (as amended).  When \<open>makeAIMove\<close> moves, its candidates are the allowed cells,
  in the order of the allowed list, if the hand-slip penalty is active with a non-empty
  list, and otherwise the empty cells in the order of the row-major scan.  It plays the
  first candidate of the highest score in that list: the choice is a candidate, no
  candidate scores higher, every candidate before it scores strictly lower.  Without
  the penalty every other candidate of the same score comes later in the row-major
  scan.  The move is appended to the history, and to the move stack of the board when
  the chosen cell is empty.
\<close>

theorem ai_plays_first_best_candidate:
  "gameState g = PLAYING \<and> aiCandidates (applyPendingSlipPenalty e g) \<noteq> [] \<longrightarrow>
     (let g1 = applyPendingSlipPenalty e g;
          restricted = (gameSubState g1 = HAND_SLIP_PENALTY \<and> allowedPositions g1 \<noteq> []);
          cands = aiCandidates g1;
          best = aiChoice e g;
          mv = \<lparr>mv_position = best, mv_player = currentPlayer g, mv_timestamp = e_now e\<rparr>
      in cands = (if restricted then allowedPositions g1
                  else filter (isEmpty (board g)) (scanCells (bsize (board g))))
         \<and> firstBest g cands best
         \<and> best \<in> set cands
         \<and> (\<forall>q \<in> set cands. evaluatePosition g q \<le> evaluatePosition g best)
         \<and> (\<not> restricted \<longrightarrow>
              (\<forall>q \<in> set cands. q \<noteq> best \<and> evaluatePosition g q = evaluatePosition g best
                 \<longrightarrow> rowMajorBefore best q))
         \<and> moveHistory (makeAIMove e g) = moveHistory g @ [mv]
         \<and> (isEmpty (board g) best \<longrightarrow>
              moves (board (makeAIMove e g)) = moves (board g) @ [mv]))"
proof (intro impI)
  assume h: "gameState g = PLAYING \<and> aiCandidates (applyPendingSlipPenalty e g) \<noteq> []"
  define g1 where "g1 = applyPendingSlipPenalty e g"
  define cands where "cands = aiCandidates g1"
  define best where "best = aiChoice e g"
  have b: "best = chooseBestPosition g1 cands"
    by (simp add: best_def aiChoice_def g1_def cands_def Let_def)
  have ne: "cands \<noteq> []" using h by (simp add: cands_def g1_def)
  have "firstBest g1 cands best"
    unfolding b using ne by (rule chooseBestPosition_firstBest)
  moreover have "firstBest g1 cands best = firstBest g cands best"
    by (rule firstBest_cong) (simp_all add: g1_def)
  ultimately have fb: "firstBest g cands best"
    by simp
  have c: "cands = (if gameSubState g1 = HAND_SLIP_PENALTY \<and> allowedPositions g1 \<noteq> []
                    then allowedPositions g1
                    else filter (isEmpty (board g)) (scanCells (bsize (board g))))"
    by (simp add: cands_def aiCandidates_def emptyCells_def getSize_def g1_def)
  have mx: "\<forall>q \<in> set cands. evaluatePosition g q \<le> evaluatePosition g best"
    using fb firstBest_max by blast
  have rm: "\<not> (gameSubState g1 = HAND_SLIP_PENALTY \<and> allowedPositions g1 \<noteq> []) \<longrightarrow>
              (\<forall>q \<in> set cands. q \<noteq> best \<and> evaluatePosition g q = evaluatePosition g best
                 \<longrightarrow> rowMajorBefore best q)"
  proof (intro impI ballI)
    fix q
    assume r: "\<not> (gameSubState g1 = HAND_SLIP_PENALTY \<and> allowedPositions g1 \<noteq> [])"
      and q: "q \<in> set cands" "q \<noteq> best \<and> evaluatePosition g q = evaluatePosition g best"
    have "cands = emptyCells (board g)"
      using r c by (auto simp: emptyCells_def getSize_def)
    then have "sorted_wrt rowMajorBefore cands"
      by (simp add: sorted_emptyCells)
    then show "rowMajorBefore best q"
      using fb q firstBest_row_major by blast
  qed
  have hist: "moveHistory (makeAIMove e g) = moveHistory g @
      [\<lparr>mv_position = best, mv_player = currentPlayer g, mv_timestamp = e_now e\<rparr>]"
    using h by (simp add: best_def makeAIMove_history)
  have stack: "isEmpty (board g) best \<longrightarrow> moves (board (makeAIMove e g)) = moves (board g) @
      [\<lparr>mv_position = best, mv_player = currentPlayer g, mv_timestamp = e_now e\<rparr>]"
    using h by (simp add: best_def makeAIMove_stack)
  show "let g1 = applyPendingSlipPenalty e g;
          restricted = (gameSubState g1 = HAND_SLIP_PENALTY \<and> allowedPositions g1 \<noteq> []);
          cands = aiCandidates g1;
          best = aiChoice e g;
          mv = \<lparr>mv_position = best, mv_player = currentPlayer g, mv_timestamp = e_now e\<rparr>
      in cands = (if restricted then allowedPositions g1
                  else filter (isEmpty (board g)) (scanCells (bsize (board g))))
         \<and> firstBest g cands best
         \<and> best \<in> set cands
         \<and> (\<forall>q \<in> set cands. evaluatePosition g q \<le> evaluatePosition g best)
         \<and> (\<not> restricted \<longrightarrow>
              (\<forall>q \<in> set cands. q \<noteq> best \<and> evaluatePosition g q = evaluatePosition g best
                 \<longrightarrow> rowMajorBefore best q))
         \<and> moveHistory (makeAIMove e g) = moveHistory g @ [mv]
         \<and> (isEmpty (board g) best \<longrightarrow>
              moves (board (makeAIMove e g)) = moves (board g) @ [mv])"
    unfolding Let_def
    using c fb firstBest_in_set [OF fb] mx rm hist stack
    unfolding g1_def cands_def best_def by blast
qed

theorem undoMove_restores_previous_board_witness:
  "placeStones (newBoard 15) ([((7, 7), BLACK, 100)] @ [((8, 7), WHITE, 200)])
     = Some (fst (placeStone (fst (placeStone (newBoard 15) (7, 7) BLACK 100)) (8, 7) WHITE 200))
   \<and> (\<exists>bPrev. placeStones (newBoard 15) [((7, 7), BLACK, 100)] = Some bPrev
         \<and> undoMove (fst (placeStone (fst (placeStone (newBoard 15) (7, 7) BLACK 100)) (8, 7) WHITE 200))
             = (bPrev, Some \<lparr>mv_position = (8, 7), mv_player = WHITE, mv_timestamp = 200\<rparr>))
   \<and> moves (newBoard 15) = []
   \<and> undoMove (newBoard 15) = (newBoard 15, None)"
proof -
  have h: "placeStones (newBoard 15) ([((7, 7), BLACK, 100)] @ [((8, 7), WHITE, 200)])
     = Some (fst (placeStone (fst (placeStone (newBoard 15) (7, 7) BLACK 100)) (8, 7) WHITE 200))"
    by code_simp
  have e: "moves (newBoard 15) = []"
    by (simp add: newBoard_def)
  show ?thesis
    using h e
      undoMove_restores_previous_board [of "newBoard 15" "[((7, 7), BLACK, 100)]" "(8, 7)" WHITE 200
        "fst (placeStone (fst (placeStone (newBoard 15) (7, 7) BLACK 100)) (8, 7) WHITE 200)"
        "newBoard 15"]
    by blast
qed

theorem removeStone_clears_cell_keeps_stack_witness:
  "wf_board (fst (placeStone (newBoard 15) (7, 7) BLACK 100))
   \<and> isValidPosition (fst (placeStone (newBoard 15) (7, 7) BLACK 100)) (7, 7)
   \<and> getStone (fst (placeStone (newBoard 15) (7, 7) BLACK 100)) (7, 7) \<noteq> None
   \<and> snd (removeStone (fst (placeStone (newBoard 15) (7, 7) BLACK 100)) (7, 7)) = True
   \<and> getStone (fst (removeStone (fst (placeStone (newBoard 15) (7, 7) BLACK 100)) (7, 7))) (7, 7) = None
   \<and> moves (fst (removeStone (fst (placeStone (newBoard 15) (7, 7) BLACK 100)) (7, 7)))
       = moves (fst (placeStone (newBoard 15) (7, 7) BLACK 100))
   \<and> getStone (fst (placeStone (newBoard 15) (7, 7) BLACK 100)) (3, 3) = None
   \<and> removeStone (fst (placeStone (newBoard 15) (7, 7) BLACK 100)) (3, 3)
       = (fst (placeStone (newBoard 15) (7, 7) BLACK 100), False)
   \<and> \<not> isValidPosition (fst (placeStone (newBoard 15) (7, 7) BLACK 100)) (15, 0)
   \<and> removeStone (fst (placeStone (newBoard 15) (7, 7) BLACK 100)) (15, 0)
       = (fst (placeStone (newBoard 15) (7, 7) BLACK 100), False)"
proof -
  let ?b = "fst (placeStone (newBoard 15) (7, 7) BLACK 100)"
  have w: "wf_board ?b"
    by (rule wf_placeStone [OF wf_newBoard])
  have v: "isValidPosition ?b (7, 7)" by code_simp
  have s: "getStone ?b (7, 7) \<noteq> None" by code_simp
  have n: "getStone ?b (3, 3) = None" by code_simp
  have o: "\<not> isValidPosition ?b (15, 0)" by code_simp
  show ?thesis
    using w v s n o
      removeStone_clears_cell_keeps_stack [OF w, of "(7, 7)"]
      removeStone_clears_cell_keeps_stack [OF w, of "(3, 3)"]
      removeStone_clears_cell_keeps_stack [OF w, of "(15, 0)"]
    by simp
qed

theorem win_detection_records_full_run_witness:
  "wf_board (board gameFour)
   \<and> gameState gameFour = PLAYING \<and> \<not> isComputerTurn gameFour
   \<and> gameSubState gameFour \<noteq> SELECTING_STRIKE_TARGET
   \<and> allowedPositions gameFour = []
   \<and> isEmpty (board gameFour) (0, 4)
   \<and> currentPlayer gameFour = BLACK
   \<and> stonesOf (board gameFour) BLACK = [(0, 0), (0, 1), (0, 2), (0, 3)]
   \<and> checkDirection (fst (placeStone (board gameFour) (0, 4) BLACK (e_now env0))) (0, 4) BLACK Vertical
       = [(0, 0), (0, 1), (0, 2), (0, 3), (0, 4)]
   \<and> maximalRun (fst (placeStone (board gameFour) (0, 4) BLACK (e_now env0))) BLACK (0, 4) Vertical
       [(0, 0), (0, 1), (0, 2), (0, 3), (0, 4)]
   \<and> (\<exists>d0 \<in> set directions.
         5 \<le> length (checkDirection (fst (placeStone (board gameFour) (0, 4) BLACK (e_now env0)))
                        (0, 4) BLACK d0)
         \<and> gameState (fst (makeMove env0 gameFour (0, 4))) = OVER
         \<and> gameResult (fst (makeMove env0 gameFour (0, 4)))
             = Some \<lparr>winner = Some BLACK,
                     winningLine = checkDirection
                       (fst (placeStone (board gameFour) (0, 4) BLACK (e_now env0))) (0, 4) BLACK d0\<rparr>
         \<and> board (fst (makeMove env0 gameFour (0, 4)))
             = fst (placeStone (board gameFour) (0, 4) BLACK (e_now env0))
         \<and> snd (makeMove env0 gameFour (0, 4)))
   \<and> gameResult (fst (makeMove env0 gameFour (0, 4)))
       = Some \<lparr>winner = Some BLACK, winningLine = [(0, 0), (0, 1), (0, 2), (0, 3), (0, 4)]\<rparr>
   \<and> wf_board (board gameVersusAI)
   \<and> gameState gameVersusAI = PLAYING
   \<and> aiCandidates (applyPendingSlipPenalty env0 gameVersusAI) \<noteq> []
   \<and> aiChoice env0 gameVersusAI = (7, 7)
   \<and> isEmpty (board gameVersusAI) (7, 7)
   \<and> currentPlayer gameVersusAI = WHITE
   \<and> checkDirection (fst (placeStone (board gameVersusAI) (7, 7) WHITE (e_now env0))) (7, 7) WHITE
        Horizontal = [(3, 7), (4, 7), (5, 7), (6, 7), (7, 7)]
   \<and> maximalRun (fst (placeStone (board gameVersusAI) (7, 7) WHITE (e_now env0))) WHITE (7, 7)
        Horizontal [(3, 7), (4, 7), (5, 7), (6, 7), (7, 7)]
   \<and> (\<exists>d0 \<in> set directions.
         5 \<le> length (checkDirection (fst (placeStone (board gameVersusAI) (7, 7) WHITE (e_now env0)))
                        (7, 7) WHITE d0)
         \<and> gameState (makeAIMove env0 gameVersusAI) = OVER
         \<and> gameResult (makeAIMove env0 gameVersusAI)
             = Some \<lparr>winner = Some WHITE,
                     winningLine = checkDirection
                       (fst (placeStone (board gameVersusAI) (7, 7) WHITE (e_now env0))) (7, 7) WHITE d0\<rparr>
         \<and> board (makeAIMove env0 gameVersusAI)
             = fst (placeStone (board gameVersusAI) (7, 7) WHITE (e_now env0)))"
proof -
  have w: "wf_board (board gameFour)"
    unfolding gameFour_def by code_simp
  have h: "gameState gameFour = PLAYING \<and> \<not> isComputerTurn gameFour
      \<and> gameSubState gameFour \<noteq> SELECTING_STRIKE_TARGET
      \<and> allowedPositions gameFour = []
      \<and> isEmpty (board gameFour) (0, 4)
      \<and> currentPlayer gameFour = BLACK
      \<and> stonesOf (board gameFour) BLACK = [(0, 0), (0, 1), (0, 2), (0, 3)]"
    unfolding gameFour_def by code_simp
  have cd: "checkDirection (fst (placeStone (board gameFour) (0, 4) BLACK (e_now env0))) (0, 4)
      BLACK Vertical = [(0, 0), (0, 1), (0, 2), (0, 3), (0, 4)]"
    unfolding gameFour_def by code_simp
  have res: "gameResult (fst (makeMove env0 gameFour (0, 4)))
       = Some \<lparr>winner = Some BLACK, winningLine = [(0, 0), (0, 1), (0, 2), (0, 3), (0, 4)]\<rparr>"
    unfolding gameFour_def by code_simp
  have v: "Vertical \<in> set directions" "Horizontal \<in> set directions"
    by (simp_all add: directions_def)
  have w2: "wf_board (board gameVersusAI)"
    unfolding gameVersusAI_def by code_simp
  have h2: "gameState gameVersusAI = PLAYING
      \<and> aiCandidates (applyPendingSlipPenalty env0 gameVersusAI) \<noteq> []
      \<and> isEmpty (board gameVersusAI) (7, 7)
      \<and> currentPlayer gameVersusAI = WHITE"
    unfolding gameVersusAI_def by code_simp
  have choice: "aiChoice env0 gameVersusAI = (7, 7)"
    unfolding gameVersusAI_def by code_simp
  have cd2: "checkDirection (fst (placeStone (board gameVersusAI) (7, 7) WHITE (e_now env0)))
      (7, 7) WHITE Horizontal = [(3, 7), (4, 7), (5, 7), (6, 7), (7, 7)]"
    unfolding gameVersusAI_def by code_simp
  let ?b = "fst (placeStone (board gameFour) (0, 4) BLACK (e_now env0))"
  have all1: "(\<forall>d. maximalRun ?b BLACK (0, 4) d (checkDirection ?b (0, 4) BLACK d))
      \<and> (\<forall>d \<in> set directions. 5 \<le> length (checkDirection ?b (0, 4) BLACK d) \<longrightarrow>
            (\<exists>d0 \<in> set directions.
               5 \<le> length (checkDirection ?b (0, 4) BLACK d0)
               \<and> gameState (fst (makeMove env0 gameFour (0, 4))) = OVER
               \<and> gameResult (fst (makeMove env0 gameFour (0, 4)))
                   = Some \<lparr>winner = Some BLACK, winningLine = checkDirection ?b (0, 4) BLACK d0\<rparr>
               \<and> board (fst (makeMove env0 gameFour (0, 4))) = ?b
               \<and> snd (makeMove env0 gameFour (0, 4))))"
    using win_detection_records_full_run [OF w, where p = "(0, 4)" and e = env0] h
    by (simp add: Let_def)
  have run1: "maximalRun ?b BLACK (0, 4) Vertical [(0, 0), (0, 1), (0, 2), (0, 3), (0, 4)]"
    using all1 cd by metis
  have five1: "5 \<le> length (checkDirection ?b (0, 4) BLACK Vertical)"
    by (simp add: cd)
  have over1: "\<exists>d0 \<in> set directions.
               5 \<le> length (checkDirection ?b (0, 4) BLACK d0)
               \<and> gameState (fst (makeMove env0 gameFour (0, 4))) = OVER
               \<and> gameResult (fst (makeMove env0 gameFour (0, 4)))
                   = Some \<lparr>winner = Some BLACK, winningLine = checkDirection ?b (0, 4) BLACK d0\<rparr>
               \<and> board (fst (makeMove env0 gameFour (0, 4))) = ?b
               \<and> snd (makeMove env0 gameFour (0, 4))"
    using all1 five1 v(1) by blast
  let ?c = "fst (placeStone (board gameVersusAI) (7, 7) WHITE (e_now env0))"
  have all2: "(\<forall>d. maximalRun ?c WHITE (7, 7) d (checkDirection ?c (7, 7) WHITE d))
      \<and> (\<forall>d \<in> set directions. 5 \<le> length (checkDirection ?c (7, 7) WHITE d) \<longrightarrow>
            (\<exists>d0 \<in> set directions.
               5 \<le> length (checkDirection ?c (7, 7) WHITE d0)
               \<and> gameState (makeAIMove env0 gameVersusAI) = OVER
               \<and> gameResult (makeAIMove env0 gameVersusAI)
                   = Some \<lparr>winner = Some WHITE, winningLine = checkDirection ?c (7, 7) WHITE d0\<rparr>
               \<and> board (makeAIMove env0 gameVersusAI) = ?c))"
    using win_detection_records_full_run [OF w2, where e = env0] h2 choice
    by (simp add: Let_def)
  have run2: "maximalRun ?c WHITE (7, 7) Horizontal [(3, 7), (4, 7), (5, 7), (6, 7), (7, 7)]"
    using all2 cd2 by metis
  have five2: "5 \<le> length (checkDirection ?c (7, 7) WHITE Horizontal)"
    by (simp add: cd2)
  have over2: "\<exists>d0 \<in> set directions.
               5 \<le> length (checkDirection ?c (7, 7) WHITE d0)
               \<and> gameState (makeAIMove env0 gameVersusAI) = OVER
               \<and> gameResult (makeAIMove env0 gameVersusAI)
                   = Some \<lparr>winner = Some WHITE, winningLine = checkDirection ?c (7, 7) WHITE d0\<rparr>
               \<and> board (makeAIMove env0 gameVersusAI) = ?c"
    using all2 five2 v(2) by blast
  show ?thesis
    using w h cd res w2 h2 choice cd2 run1 over1 run2 over2 by simp
qed

theorem ai_plays_first_best_candidate_witness:
  "gameState gameVersusAI = PLAYING
   \<and> aiCandidates (applyPendingSlipPenalty env0 gameVersusAI) = [(2, 7), (7, 7), (12, 12)]
   \<and> aiChoice env0 gameVersusAI = (7, 7)
   \<and> firstBest gameVersusAI [(2, 7), (7, 7), (12, 12)] (7, 7)
   \<and> evaluatePosition gameVersusAI (2, 7) < evaluatePosition gameVersusAI (7, 7)
   \<and> moveHistory (makeAIMove env0 gameVersusAI)
       = moveHistory gameVersusAI
         @ [\<lparr>mv_position = (7, 7), mv_player = WHITE, mv_timestamp = e_now env0\<rparr>]
   \<and> moves (board (makeAIMove env0 gameVersusAI))
       = moves (board gameVersusAI)
         @ [\<lparr>mv_position = (7, 7), mv_player = WHITE, mv_timestamp = e_now env0\<rparr>]"
proof -
  have h: "gameState gameVersusAI = PLAYING
      \<and> aiCandidates (applyPendingSlipPenalty env0 gameVersusAI) = [(2, 7), (7, 7), (12, 12)]
      \<and> aiChoice env0 gameVersusAI = (7, 7)
      \<and> isEmpty (board gameVersusAI) (7, 7)
      \<and> currentPlayer gameVersusAI = WHITE
      \<and> evaluatePosition gameVersusAI (2, 7) < evaluatePosition gameVersusAI (7, 7)"
    unfolding gameVersusAI_def by code_simp
  have r: "gameSubState (applyPendingSlipPenalty env0 gameVersusAI) = HAND_SLIP_PENALTY
      \<and> allowedPositions (applyPendingSlipPenalty env0 gameVersusAI) = [(2, 7), (7, 7), (12, 12)]"
    unfolding gameVersusAI_def by code_simp
  have "firstBest gameVersusAI [(2, 7), (7, 7), (12, 12)] (7, 7)
      \<and> moveHistory (makeAIMove env0 gameVersusAI)
          = moveHistory gameVersusAI
            @ [\<lparr>mv_position = (7, 7), mv_player = WHITE, mv_timestamp = e_now env0\<rparr>]
      \<and> moves (board (makeAIMove env0 gameVersusAI))
          = moves (board gameVersusAI)
            @ [\<lparr>mv_position = (7, 7), mv_player = WHITE, mv_timestamp = e_now env0\<rparr>]"
    using ai_plays_first_best_candidate [of gameVersusAI env0] h r
    by (simp add: Let_def)
  then show ?thesis using h by simp
qed

text \<open>
  C9 as stated fails under the hand-slip penalty.  The allowed cells are (14, 14),
  (0, 0) and (14, 0), in the order they were drawn; all three score 0.  The computer
  plays (14, 14), the first of the list, although (0, 0) has the same score and comes
  first in the row-major scan.
\<close>

theorem ai_tie_not_row_major_under_slip_penalty:
  "gameState gameTie = PLAYING
   \<and> gameSubState gameTie = HAND_SLIP_PENALTY
   \<and> allowedPositions gameTie = [(14, 14), (0, 0), (14, 0)]
   \<and> aiCandidates (applyPendingSlipPenalty envTie gameTie) = [(14, 14), (0, 0), (14, 0)]
   \<and> evaluatePosition gameTie (14, 14) = 0
   \<and> evaluatePosition gameTie (0, 0) = 0
   \<and> evaluatePosition gameTie (14, 0) = 0
   \<and> rowMajorBefore (0, 0) (14, 14)
   \<and> aiChoice envTie gameTie = (14, 14)
   \<and> moveHistory (makeAIMove envTie gameTie)
       = moveHistory gameTie
         @ [\<lparr>mv_position = (14, 14), mv_player = WHITE, mv_timestamp = 1000\<rparr>]
   \<and> getStone (board (makeAIMove envTie gameTie)) (14, 14) = Some WHITE
   \<and> getStone (board (makeAIMove envTie gameTie)) (0, 0) = None"
  unfolding gameTie_def
  by code_simp

section \<open>Items: the pools of generateRandomItemType\<close>

text \<open>
  C3.  The pools are computed from the \<^verbatim>\<open>isStrengthening\<close> flags of the table, and the
  entry of SLIP_PENALTY carries the flag true.  So the strengthening pool has six
  members, SLIP_PENALTY among them, and the weakening pool has two; a first draw below
  the bias (1/11 against 1/2) with a second draw of 9/10 returns SLIP_PENALTY from the
  strengthening branch.
\<close>

theorem generateRandomItemType_slip_penalty_in_strengthening_pool:
  "strengtheningItems newItemSystem
     = [CHAOS_STRIKE, PRECISE_STRIKE, ACCELERATED_MOVE, STRATEGY_GUIDE, TOUGHEN_HEART, SLIP_PENALTY]
   \<and> weakeningItems newItemSystem = [SELF_MISTAKE, OPPONENT_ACCELERATION]
   \<and> drawValue (Draw 1 9) < 1 / 2
   \<and> generateRandomItemType newItemSystem (1 / 2) (Draw 1 9) (Draw 9 0) = SLIP_PENALTY"
  by (simp add: generateRandomItemType_def newItemSystem_def ItemType_values_def)

text \<open>
  The weakening branch never returns SLIP_PENALTY: whenever the item system of the
  engine returns it, the first draw was below the bias.
\<close>

lemma randomIndex_less: "0 < n \<Longrightarrow> randomIndex r n < n"
proof (cases r)
  case (Draw k m)
  assume "0 < n"
  define c where "c = int k + int m + 1"
  define a where "a = int k * int n"
  have c: "0 < c" by (simp add: c_def)
  have "0 < (int m + 1) * int n"
    using \<open>0 < n\<close> by (intro mult_pos_pos) simp_all
  then have lt: "a < int n * c"
    by (simp add: a_def c_def distrib_left distrib_right mult.commute)
  have "a div c * c + a mod c = a" by simp
  moreover have "0 \<le> a mod c" using c by simp
  ultimately have "a div c * c \<le> a" by linarith
  then have "a div c * c < int n * c" using lt by linarith
  then have up: "a div c < int n"
    using c by (simp add: mult_less_cancel_right)
  have "0 \<le> a div c"
    using c by (simp add: pos_imp_zdiv_nonneg_iff a_def)
  then show ?thesis
    using up by (simp add: Draw nat_less_iff a_def c_def)
qed

lemma slip_penalty_only_below_bias:
  "generateRandomItemType newItemSystem bias rand r = SLIP_PENALTY \<Longrightarrow> drawValue rand < bias"
proof (rule ccontr)
  assume g: "generateRandomItemType newItemSystem bias rand r = SLIP_PENALTY"
  assume "\<not> drawValue rand < bias"
  then have "generateRandomItemType newItemSystem bias rand r
      = [SELF_MISTAKE, OPPONENT_ACCELERATION] ! randomIndex r 2"
    by (simp add: generateRandomItemType_def newItemSystem_def ItemType_values_def
        numeral_2_eq_2)
  moreover have "randomIndex r 2 < 2" by (simp add: randomIndex_less)
  then have "randomIndex r 2 = 0 \<or> randomIndex r 2 = 1" by auto
  ultimately show False using g by auto
qed

section \<open>Items: TOUGHEN_HEART against CHAOS_STRIKE\<close>

text \<open>
  C4.  WHITE holds two TOUGHEN_HEART effects and one stone.  One CHAOS_STRIKE of BLACK
  leaves the stone on the board and removes both effects, so that a second
  CHAOS_STRIKE removes the stone.
\<close>

theorem chaosStrike_consumes_every_toughen_heart:
  "map pi_itemType (pget (activeEffects gameToughened) WHITE) = [TOUGHEN_HEART, TOUGHEN_HEART]
   \<and> stonesOf (board gameToughened) WHITE = [(8, 8)]
   \<and> stonesOf (board (performChaosStrike env0 gameToughened BLACK)) WHITE = [(8, 8)]
   \<and> pget (activeEffects (performChaosStrike env0 gameToughened BLACK)) WHITE = []
   \<and> stonesOf (board (performChaosStrike env0 (performChaosStrike env0 gameToughened BLACK) BLACK))
        WHITE = []"
  unfolding gameToughened_def
  by code_simp

text \<open>
  What holds for any number of effects held: a blocked CHAOS_STRIKE leaves the board as
  it is and leaves the attacked player without any TOUGHEN_HEART effect.
\<close>

lemma no_toughen_after_filter:
  "\<not> list_ex (\<lambda>effect. pi_itemType effect = TOUGHEN_HEART)
       (filter (\<lambda>effect. pi_itemType effect \<noteq> TOUGHEN_HEART) xs)"
  by (simp add: list_ex_iff)

lemma chaosStrike_blocked:
  assumes "hasToughenHeart g (opponentOf p)"
  shows "board (performChaosStrike e g p) = board g
         \<and> \<not> hasToughenHeart (performChaosStrike e g p) (opponentOf p)"
  using assms
  by (simp add: performChaosStrike_def opponentOf_def hasToughenHeart_def removeEffect_def
      showNotification_def Let_def no_toughen_after_filter)

section \<open>pause and resume\<close>

text \<open>
  C10.  \<open>pause\<close> turns PLAYING into PAUSED and \<open>resume\<close> turns PAUSED into PLAYING; in
  any other state each returns the engine as it is, and in every state neither changes
  a field other than \<open>gameState\<close>.
\<close>

theorem pause_resume_only_toggle:
  "(gameState g = PLAYING \<longrightarrow> pause g = g\<lparr>gameState := PAUSED\<rparr>)
   \<and> (gameState g \<noteq> PLAYING \<longrightarrow> pause g = g)
   \<and> (gameState g = PAUSED \<longrightarrow> resume g = g\<lparr>gameState := PLAYING\<rparr>)
   \<and> (gameState g \<noteq> PAUSED \<longrightarrow> resume g = g)"
  by (simp add: pause_def resume_def)

theorem pause_resume_only_toggle_witness:
  "gameState game0 = PLAYING
   \<and> pause game0 = game0\<lparr>gameState := PAUSED\<rparr>
   \<and> gameState (pause game0) \<noteq> PLAYING
   \<and> pause (pause game0) = pause game0
   \<and> gameState (pause game0) = PAUSED
   \<and> resume (pause game0) = (pause game0)\<lparr>gameState := PLAYING\<rparr>
   \<and> resume (pause game0) = game0
   \<and> gameState (newGame 15) = READY
   \<and> pause (newGame 15) = newGame 15
   \<and> resume (newGame 15) = newGame 15"
proof -
  have p: "gameState game0 = PLAYING"
    by (simp add: game0_def startNewGame_def Let_def clearNotification_def scheduleAIMove_def)
  have q: "gameState (pause game0) = PAUSED"
    using p by (simp add: pause_def)
  have r: "gameState (newGame 15) = READY"
    by (simp add: newGame_def)
  have restored: "(game0\<lparr>gameState := PAUSED\<rparr>)\<lparr>gameState := PLAYING\<rparr> = game0"
    using p by simp
  show ?thesis
    using p q r restored
      pause_resume_only_toggle [of game0]
      pause_resume_only_toggle [of "pause game0"]
      pause_resume_only_toggle [of "newGame 15"]
    by simp
qed

end
